theory Spec2Isabelle
  imports Main "HOL-Library.Char_ord" "HOL-Library.List_Lexorder"
begin

section \<open>Configuration constants (pybulkpdf/config.py)\<close>

definition OUTPUT_FILENAME_COL :: string where
  "OUTPUT_FILENAME_COL = ''_output_filename''"

definition FIELD_TYPE_BUTTON :: string where
  "FIELD_TYPE_BUTTON = ''/Btn''"

definition FIELD_TYPE_CHOICE :: string where
  "FIELD_TYPE_CHOICE = ''/Ch''"

definition PDF_VALUE_CHECKBOX_ON :: string where
  "PDF_VALUE_CHECKBOX_ON = ''/Yes''"

definition PDF_VALUE_CHECKBOX_OFF :: string where
  "PDF_VALUE_CHECKBOX_OFF = ''/Off''"

section \<open>Python strings\<close>

text \<open>
  A Python \<open>str\<close> is modelled as a \<^typ>\<open>string\<close> whose characters are the code points
  below 256. The builtins used by the program are written out for that range.
\<close>

definition py_isspace :: "char \<Rightarrow> bool" where
  "py_isspace c =
     (let n = (of_char c :: nat)
      in (9 \<le> n \<and> n \<le> 13) \<or> (28 \<le> n \<and> n \<le> 32) \<or> n = 133 \<or> n = 160)"

definition strip :: "string \<Rightarrow> string" where
  "strip s = rev (dropWhile py_isspace (rev (dropWhile py_isspace s)))"

definition py_lower_char :: "char \<Rightarrow> char" where
  "py_lower_char c =
     (let n = (of_char c :: nat)
      in if (65 \<le> n \<and> n \<le> 90) \<or> (192 \<le> n \<and> n \<le> 222 \<and> n \<noteq> 215)
         then char_of (n + 32) else c)"

definition lower :: "string \<Rightarrow> string" where
  "lower s = map py_lower_char s"

definition endswith :: "string \<Rightarrow> string \<Rightarrow> bool" where
  "endswith s suffix =
     (length suffix \<le> length s \<and> drop (length s - length suffix) s = suffix)"

fun str_nat :: "nat \<Rightarrow> string" where
  "str_nat n =
     (if n < 10 then [char_of (48 + n)]
      else str_nat (n div 10) @ [char_of (48 + n mod 10)])"

declare str_nat.simps [simp del]

definition str_int :: "int \<Rightarrow> string" where
  "str_int i = (if i < 0 then CHR ''-'' # str_nat (nat (- i)) else str_nat (nat i))"

text \<open>\<open>os.path.basename\<close> and the two-argument \<open>os.path.join\<close> of \<open>posixpath\<close>.\<close>

definition os_path_basename :: "string \<Rightarrow> string" where
  "os_path_basename p = rev (takeWhile (\<lambda>c. c \<noteq> CHR ''/'') (rev p))"

definition os_path_join :: "string \<Rightarrow> string \<Rightarrow> string" where
  "os_path_join a b =
     (if b \<noteq> [] \<and> hd b = CHR ''/'' then b
      else if a = [] \<or> last a = CHR ''/'' then a @ b
      else a @ ''/'' @ b)"

section \<open>Cell values of the spreadsheet\<close>

text \<open>
  The values \<open>openpyxl\<close> hands out with \<open>values_only=True\<close>: \<open>None\<close> for an empty cell,
  booleans, integers, strings, and every other object (floats, dates, times), which
  the program only ever turns into text; \<open>PyObj t\<close> is such an object whose \<open>str()\<close>
  is \<open>t\<close>.
\<close>

datatype cell = PyNone | PyBool bool | PyInt int | PyStr string | PyObj string

fun py_str :: "cell \<Rightarrow> string" where
  "py_str PyNone = ''None''"
| "py_str (PyBool b) = (if b then ''True'' else ''False'')"
| "py_str (PyInt i) = str_int i"
| "py_str (PyStr s) = s"
| "py_str (PyObj t) = t"

text \<open>\<open>isinstance(value, bool)\<close> and \<open>value is None\<close>.\<close>

fun is_bool :: "cell \<Rightarrow> bool" where
  "is_bool (PyBool b) = True"
| "is_bool v = False"

fun is_none :: "cell \<Rightarrow> bool" where
  "is_none PyNone = True"
| "is_none v = False"

text \<open>\<open>dict.get(key)\<close>: a missing key reads as \<open>None\<close>.\<close>

definition dict_get :: "(string \<rightharpoonup> cell) \<Rightarrow> string \<Rightarrow> cell" where
  "dict_get d k = (case d k of None \<Rightarrow> PyNone | Some v \<Rightarrow> v)"

text \<open>
  \<open>{header: value for header, value in zip(headers, row_values)}\<close>: the pairing stops at
  the shorter sequence and a later duplicate header overwrites an earlier one.
\<close>

definition make_row_dict :: "string list \<Rightarrow> cell list \<Rightarrow> (string \<rightharpoonup> cell)" where
  "make_row_dict headers row_values = map_of (rev (zip headers row_values))"

section \<open>Exceptions (pybulkpdf/exceptions.py)\<close>

text \<open>
  The classes of \<open>exceptions.py\<close>, the \<open>PdfReadError\<close> of the document library, and
  the builtin \<open>KeyError\<close> and \<open>FileNotFoundError\<close>, and \<open>LibraryError\<close> for every
  other \<open>Exception\<close> a library or builtin raises (\<open>OSError\<close>, \<open>TypeError\<close>,
  \<open>IndexError\<close> and so on). An exception value carries its
  class, its message and the wrapped \<open>original_exception\<close>.
\<close>

datatype exc_class =
    PypdfReadError
  | LibKeyError
  | LibFileNotFoundError
  | LibraryError
  | PyBulkPDFError
  | PDFReadError
  | PDFWriteError
  | ExcelReadError
  | ExcelWriteError
  | ConfigurationError
  | FileOperationError

datatype py_exc = Exc (cls: exc_class) (message: string) (original_exception: "py_exc option")

text \<open>\<open>PyBulkPDFError.__str__\<close>; a library exception prints its message.\<close>

fun exc_str :: "py_exc \<Rightarrow> string" where
  "exc_str (Exc c m None) = m"
| "exc_str (Exc c m (Some e)) = m @ '' (Original error: '' @ exc_str e @ '')''"

text \<open>
  A \<open>try\<close> statement: the body's outcome and the \<open>except\<close> clauses in order, each a test
  on the class and a handler. The first matching clause handles the exception; with
  no matching clause the exception propagates.
\<close>

fun try_except ::
  "py_exc + 'a \<Rightarrow> ((exc_class \<Rightarrow> bool) \<times> (py_exc \<Rightarrow> py_exc + 'a)) list \<Rightarrow> py_exc + 'a" where
  "try_except (Inr v) hs = Inr v"
| "try_except (Inl e) [] = Inl e"
| "try_except (Inl e) ((m, h) # hs) = (if m (cls e) then h e else try_except (Inl e) hs)"

text \<open>\<open>except Exception\<close> matches every class; the others match by name.\<close>

definition any_Exception :: "exc_class \<Rightarrow> bool" where
  "any_Exception c = True"

definition one_of :: "exc_class list \<Rightarrow> exc_class \<Rightarrow> bool" where
  "one_of cs c = (c \<in> set cs)"

section \<open>Value coercion (FormFiller._prepare_fill_data)\<close>

text \<open>The body of the loop over \<open>common_fields\<close>, for one value.\<close>

fun coerce_cell :: "cell \<Rightarrow> string" where
  "coerce_cell (PyBool b) = (if b then PDF_VALUE_CHECKBOX_ON else PDF_VALUE_CHECKBOX_OFF)"
| "coerce_cell PyNone = []"
| "coerce_cell v = py_str v"

definition prepare_fill_data ::
  "string set option \<Rightarrow> (string \<rightharpoonup> cell) \<Rightarrow> (string \<rightharpoonup> string)" where
  "prepare_fill_data common_fields row_dict =
     (case common_fields of
        None \<Rightarrow> Map.empty
      | Some cf \<Rightarrow> (\<lambda>field. if field \<in> cf then Some (coerce_cell (dict_get row_dict field))
                           else None))"

section \<open>The file system and the document library\<close>

text \<open>
  The part of the file system the program asks about: the paths that are files and
  the paths that are directories.
\<close>

record fs =
  files :: "string set"
  dirs :: "string set"

definition os_path_exists :: "fs \<Rightarrow> string \<Rightarrow> bool" where
  "os_path_exists f p = (p \<in> files f \<or> p \<in> dirs f)"

definition os_path_isfile :: "fs \<Rightarrow> string \<Rightarrow> bool" where
  "os_path_isfile f p = (p \<in> files f)"

definition os_path_isdir :: "fs \<Rightarrow> string \<Rightarrow> bool" where
  "os_path_isdir f p = (p \<in> dirs f)"

definition create_file :: "string \<Rightarrow> fs \<Rightarrow> fs" where
  "create_file p f = f\<lparr>files := insert p (files f)\<rparr>"

text \<open>
  What the document library does in one call of \<open>_fill_single_pdf\<close>, stage by stage:
  the exception raised by \<open>PdfWriter(clone_from=...)\<close> if any, the exception raised
  by \<open>update_page_form_field_values\<close> on each page, the exception raised between the
  page loop and the creation of the output file (the AcroForm clean-up, \<open>open\<close>), and
  the exception raised by \<open>writer.write\<close> once the file is open.
\<close>

record engine_run =
  clone_error :: "py_exc option"
  page_errors :: "py_exc option list"
  open_error :: "py_exc option"
  write_error :: "py_exc option"

type_synonym fill_data = "string \<rightharpoonup> string"

type_synonym doc_engine = "fill_data \<Rightarrow> string \<Rightarrow> engine_run"

section \<open>FormFiller (pybulkpdf/core/form_filler.py)\<close>

text \<open>
  The worksheet as the spreadsheet library presents it: the first row as
  \<open>next(iter_rows(min_row=1, max_row=1), None)\<close> returns it, \<open>max_row\<close>, and the rows
  of \<open>iter_rows(min_row=2)\<close>.
\<close>

record worksheet =
  header_row :: "cell list option"
  max_row :: int
  data_rows :: "cell list list"

record filler =
  template_path :: string
  data_path :: string
  output_dir :: string
  overwrite :: bool
  pdf_field_names :: "string set option"
  xlsx_headers :: "string list option"
  sheet :: "worksheet option"
  total_rows :: int
  common_fields :: "string set option"
  row_count :: nat
  success_count :: nat
  failed_rows :: "(nat \<times> string) list"

definition FormFiller_init :: "fs \<Rightarrow> string \<Rightarrow> string \<Rightarrow> string \<Rightarrow> bool \<Rightarrow> py_exc + filler" where
  "FormFiller_init f template data out ow =
     (if \<not> os_path_isfile f template then
        Inl (Exc FileOperationError (''Template PDF not found or is not a file: '' @ template) None)
      else if \<not> os_path_isfile f data then
        Inl (Exc FileOperationError (''Data file not found or is not a file: '' @ data) None)
      else if \<not> os_path_isdir f out then
        Inl (Exc FileOperationError
               (''Output directory not found or is not a directory: '' @ out) None)
      else
        Inr \<lparr>template_path = template, data_path = data, output_dir = out, overwrite = ow,
             pdf_field_names = None, xlsx_headers = None, sheet = None, total_rows = 0,
             common_fields = None, row_count = 0, success_count = 0, failed_rows = []\<rparr>)"

subsection \<open>Setup steps\<close>

text \<open>
  \<open>reader_result\<close> is what \<open>PdfReader(path).get_fields()\<close> does: it raises, or returns
  \<open>None\<close> or the dictionary of fields (here only the keys matter).
\<close>

definition read_pdf_template_fields ::
  "(py_exc + (string \<times> 'p) list option) \<Rightarrow> filler \<Rightarrow> py_exc + filler" where
  "read_pdf_template_fields reader_result self =
     try_except
       (case reader_result of
          Inl e \<Rightarrow> Inl e
        | Inr flds \<Rightarrow>
            (if flds = None \<or> flds = Some [] then
               Inl (Exc ConfigurationError
                      (''No fillable fields found in template PDF: '' @ template_path self) None)
             else Inr (self\<lparr>pdf_field_names := Some (set (map fst (the flds)))\<rparr>)))
       [(one_of [PypdfReadError],
           \<lambda>e. Inl (Exc PDFReadError
                  (''Error reading PDF structure from '' @ [CHR 0x27] @ template_path self
                     @ [CHR 0x27]) (Some e))),
        (any_Exception,
           \<lambda>e. Inl (Exc PDFReadError
                  (''Unexpected error reading PDF template fields '' @ [CHR 0x27]
                     @ template_path self @ [CHR 0x27]) (Some e)))]"

text \<open>
  \<open>workbook_result\<close> is what \<open>openpyxl.load_workbook\<close> does: it raises, or returns a
  workbook whose active sheet is \<open>None\<close> or a worksheet.
\<close>

definition read_excel_data :: "(py_exc + worksheet option) \<Rightarrow> filler \<Rightarrow> py_exc + filler" where
  "read_excel_data workbook_result self =
     try_except
       (case workbook_result of
          Inl e \<Rightarrow> Inl e
        | Inr None \<Rightarrow>
            Inl (Exc ExcelReadError
                   (''Could not get active sheet from Excel file: '' @ data_path self) None)
        | Inr (Some sh) \<Rightarrow>
            (case header_row sh of
               None \<Rightarrow>
                 Inl (Exc ExcelReadError
                        (''Excel file has no header row: '' @ data_path self) None)
             | Some xlsx_headers_raw \<Rightarrow>
                 (let hs = map (\<lambda>h. if \<not> is_none h then strip (py_str h) else [])
                             xlsx_headers_raw
                  in if hs = [] \<or> list_all (\<lambda>h. h = []) hs then
                       Inl (Exc ExcelReadError
                              (''Excel file has no valid headers in the first row: ''
                                 @ data_path self) None)
                     else
                       Inr (self\<lparr>sheet := Some sh, xlsx_headers := Some hs,
                                 total_rows := (if max_row sh > 1 then max_row sh - 1 else 0)\<rparr>))))
       [(any_Exception,
           \<lambda>e. Inl (Exc ExcelReadError (''Error reading Excel file '' @ data_path self)
                  (Some e)))]"

definition validate_headers_and_map_fields :: "filler \<Rightarrow> py_exc + filler" where
  "validate_headers_and_map_fields self =
     (case (pdf_field_names self, xlsx_headers self) of
        (Some pdf_names, Some headers) \<Rightarrow>
          (let xlsx_header_set = set headers in
           if OUTPUT_FILENAME_COL \<notin> xlsx_header_set then
             Inl (Exc ConfigurationError
                    (''Required column '' @ [CHR 0x27] @ OUTPUT_FILENAME_COL @ [CHR 0x27]
                       @ '' not found in Excel file headers.'') None)
           else
             (let xlsx_data_fields = xlsx_header_set - {OUTPUT_FILENAME_COL};
                  common = pdf_names \<inter> xlsx_data_fields
              in if common = {} then
                   Inl (Exc ConfigurationError
                          (''No common fields found between PDF template and Excel headers. ''
                             @ ''Cannot proceed.'') None)
                 else Inr (self\<lparr>common_fields := Some common\<rparr>)))
      | _ \<Rightarrow>
          Inl (Exc ConfigurationError
                 ''Cannot validate headers: PDF fields or Excel headers not loaded.'' None))"

subsection \<open>Filling one artifact (FormFiller._fill_single_pdf)\<close>

text \<open>The page loop: a \<open>KeyError\<close> is passed over, any other exception is logged.\<close>

fun update_pages :: "py_exc option list \<Rightarrow> py_exc + unit" where
  "update_pages [] = Inr ()"
| "update_pages (r # rs) =
     (case try_except (case r of None \<Rightarrow> Inr () | Some e \<Rightarrow> Inl e)
             [(one_of [LibKeyError], \<lambda>e. Inr ()), (any_Exception, \<lambda>e. Inr ())] of
        Inl e \<Rightarrow> Inl e
      | Inr u \<Rightarrow> update_pages rs)"

text \<open>
  The body of the \<open>try\<close>. \<open>open(path, "wb")\<close> creates the file, so a failure of
  \<open>writer.write\<close> leaves a file at the path.
\<close>

definition fill_body :: "engine_run \<Rightarrow> string \<Rightarrow> fs \<Rightarrow> (py_exc + unit) \<times> fs" where
  "fill_body r output_filepath f =
     (case clone_error r of
        Some e \<Rightarrow> (Inl e, f)
      | None \<Rightarrow>
          (case update_pages (page_errors r) of
             Inl e \<Rightarrow> (Inl e, f)
           | Inr u \<Rightarrow>
               (case open_error r of
                  Some e \<Rightarrow> (Inl e, f)
                | None \<Rightarrow>
                    (case write_error r of
                       Some e \<Rightarrow> (Inl e, create_file output_filepath f)
                     | None \<Rightarrow> (Inr (), create_file output_filepath f)))))"

definition fill_single_pdf ::
  "doc_engine \<Rightarrow> fill_data \<Rightarrow> string \<Rightarrow> fs \<Rightarrow> (py_exc + unit) \<times> fs" where
  "fill_single_pdf eng fill_data output_filepath f =
     (case fill_body (eng fill_data output_filepath) output_filepath f of
        (r, f') \<Rightarrow>
          (try_except r
             [(one_of [PypdfReadError],
                 \<lambda>e. Inl (Exc PDFReadError
                        (''Template read error during cloning for ''
                           @ os_path_basename output_filepath) (Some e))),
              (any_Exception,
                 \<lambda>e. Inl (Exc PDFWriteError
                        (''PDF write error for '' @ os_path_basename output_filepath)
                        (Some e)))],
           f'))"

subsection \<open>One row (FormFiller._process_single_row)\<close>

text \<open>Lines 252 and 253: the extension is appended unless the name already ends with it.\<close>

definition output_filename :: "string \<Rightarrow> string" where
  "output_filename current_output_filename =
     (if \<not> endswith (lower current_output_filename) ''.pdf''
      then current_output_filename @ ''.pdf'' else current_output_filename)"

definition empty_filename_message :: string where
  "empty_filename_message = [CHR 0x27] @ OUTPUT_FILENAME_COL @ [CHR 0x27] @ '' is empty''"

definition file_exists_message :: "string \<Rightarrow> string" where
  "file_exists_message current_output_filename =
     ''Output file exists: '' @ current_output_filename @ '' (use --overwrite)''"

type_synonym processing_result = "bool \<times> string"

text \<open>
  The \<open>try\<close> block of lines 259 to 273, over the two methods it calls. The tests of the
  repository replace both methods by mocks that raise, so they are parameters here:
  \<open>prepare\<close> stands for \<open>self._prepare_fill_data\<close> and \<open>fill\<close> for
  \<open>self._fill_single_pdf\<close>.
\<close>

definition fill_row ::
  "((string \<rightharpoonup> cell) \<Rightarrow> py_exc + fill_data) \<Rightarrow>
   (fill_data \<Rightarrow> string \<Rightarrow> fs \<Rightarrow> (py_exc + unit) \<times> fs) \<Rightarrow>
   (string \<rightharpoonup> cell) \<Rightarrow> string \<Rightarrow> string \<Rightarrow> fs \<Rightarrow>
   (py_exc + processing_result option) \<times> fs" where
  "fill_row prepare fill row_dict current_output_filename output_filepath f =
     (case (case prepare row_dict of
              Inl e \<Rightarrow> (Inl e, f)
            | Inr fill_data \<Rightarrow>
                (case fill fill_data output_filepath f of
                   (Inl e, f') \<Rightarrow> (Inl e, f')
                 | (Inr u, f') \<Rightarrow>
                     (Inr (Some (True, ''Successfully generated '' @ current_output_filename)),
                      f'))) of
        (r, f') \<Rightarrow>
          (try_except r
             [(one_of [PDFReadError, PDFWriteError],
                 \<lambda>e. Inr (Some (False, ''PDF processing error: '' @ exc_str e))),
              (any_Exception,
                 \<lambda>e. Inr (Some (False, ''Unexpected error: '' @ exc_str e)))],
           f'))"

definition process_single_row_with ::
  "((string \<rightharpoonup> cell) \<Rightarrow> py_exc + fill_data) \<Rightarrow>
   (fill_data \<Rightarrow> string \<Rightarrow> fs \<Rightarrow> (py_exc + unit) \<times> fs) \<Rightarrow>
   filler \<Rightarrow> nat \<Rightarrow> cell list \<Rightarrow> fs \<Rightarrow> (py_exc + processing_result option) \<times> fs" where
  "process_single_row_with prepare fill self row_num row_values f =
     (if list_all is_none row_values then (Inr None, f)
      else
        (case (xlsx_headers self, common_fields self) of
           (Some headers, Some cf) \<Rightarrow>
             (let row_dict = make_row_dict headers row_values;
                  output_filename_raw = dict_get row_dict OUTPUT_FILENAME_COL;
                  current_output_filename =
                    (if \<not> is_none output_filename_raw then strip (py_str output_filename_raw)
                     else [])
              in if current_output_filename = [] then
                   (Inr (Some (False, empty_filename_message)), f)
                 else
                   (let current_output_filename = output_filename current_output_filename;
                        output_filepath = os_path_join (output_dir self) current_output_filename
                    in if \<not> overwrite self \<and> os_path_exists f output_filepath then
                         (Inr (Some (False, file_exists_message current_output_filename)), f)
                       else
                         fill_row prepare fill row_dict current_output_filename
                           output_filepath f))
         | _ \<Rightarrow>
             (Inr (Some (False, ''Internal error: Headers/common fields not available.'')), f)))"

definition process_single_row ::
  "doc_engine \<Rightarrow> filler \<Rightarrow> nat \<Rightarrow> cell list \<Rightarrow> fs \<Rightarrow> (py_exc + processing_result option) \<times> fs" where
  "process_single_row eng self row_num row_values f =
     process_single_row_with (\<lambda>row_dict. Inr (prepare_fill_data (common_fields self) row_dict))
       (fill_single_pdf eng) self row_num row_values f"

subsection \<open>The run (FormFiller.run)\<close>

text \<open>
  The loop over \<open>enumerate(progress_bar)\<close>. \<open>eng\<close> gives the behaviour of the document
  library at each row number; an exception leaving \<open>_process_single_row\<close> would leave
  the loop. The progress bar and the log are not modelled.
\<close>

fun run_loop ::
  "(nat \<Rightarrow> doc_engine) \<Rightarrow> nat \<Rightarrow> cell list list \<Rightarrow> filler \<Rightarrow> fs \<Rightarrow> (py_exc + filler) \<times> fs" where
  "run_loop eng row_index [] self f = (Inr self, f)"
| "run_loop eng row_index (row_values # rest) self f =
     (let row_num = row_index + 2 in
      case process_single_row (eng row_num) self row_num row_values f of
        (Inl e, f') \<Rightarrow> (Inl e, f')
      | (Inr None, f') \<Rightarrow> run_loop eng (row_index + 1) rest self f'
      | (Inr (Some (success, msg)), f') \<Rightarrow>
          (let self1 = self\<lparr>row_count := row_count self + 1\<rparr> in
           if success then
             run_loop eng (row_index + 1) rest
               (self1\<lparr>success_count := success_count self1 + 1\<rparr>) f'
           else
             run_loop eng (row_index + 1) rest
               (self1\<lparr>failed_rows := failed_rows self1 @ [(row_num, msg)]\<rparr>) f'))"

definition run ::
  "(py_exc + (string \<times> 'p) list option) \<Rightarrow> (py_exc + worksheet option) \<Rightarrow>
   (nat \<Rightarrow> doc_engine) \<Rightarrow> filler \<Rightarrow> fs \<Rightarrow> (py_exc + filler) \<times> fs" where
  "run reader_result workbook_result eng self f =
     (case read_pdf_template_fields reader_result self of
        Inl e \<Rightarrow> (Inl e, f)
      | Inr self1 \<Rightarrow>
          (case read_excel_data workbook_result self1 of
             Inl e \<Rightarrow> (Inl e, f)
           | Inr self2 \<Rightarrow>
               (case validate_headers_and_map_fields self2 of
                  Inl e \<Rightarrow> (Inl e, f)
                | Inr self3 \<Rightarrow>
                    (case sheet self3 of
                       None \<Rightarrow>
                         (Inl (Exc PyBulkPDFError
                                 ''Internal error: Excel sheet not loaded after setup.'' None), f)
                     | Some sh \<Rightarrow> run_loop eng 0 (data_rows sh) self3 f))))"

section \<open>PDFAnalyzer (pybulkpdf/core/pdf_analyzer.py)\<close>

text \<open>
  The properties of a field that the analyzer reads. An \<open>/Opt\<close> entry is a text
  string, an array of text strings, or another object (a number, say), given by its
  \<open>str()\<close>. The \<open>/AP\<close> value either has a \<open>get\<close> method or not, and its \<open>/N\<close> value is a
  dictionary, given by its keys in order, or not.
\<close>

datatype opt_entry = OptStr string | OptList "string list" | OptOther string

datatype n_entry = NDict "string list" | NNotDict

datatype ap_entry = APDict "n_entry option" | APNotDict

record field_props =
  FT :: "string option"
  AP :: "ap_entry option"
  Opt :: "opt_entry list option"

type_synonym field_dict = "(string \<times> field_props) list"

record analyzer =
  pdf_path :: string
  loaded_fields :: "field_dict option"
  field_names :: "string set option"

definition PDFAnalyzer_load :: "(py_exc + field_dict option) \<Rightarrow> string \<Rightarrow> py_exc + analyzer" where
  "PDFAnalyzer_load reader_result path =
     try_except
       (case reader_result of
          Inl e \<Rightarrow> Inl e
        | Inr flds \<Rightarrow>
            (if flds \<noteq> None \<and> flds \<noteq> Some [] then
               Inr \<lparr>pdf_path = path, loaded_fields = flds,
                    field_names = Some (set (map fst (the flds)))\<rparr>
             else Inr \<lparr>pdf_path = path, loaded_fields = None, field_names = Some {}\<rparr>))
       [(one_of [PypdfReadError],
           \<lambda>e. Inl (Exc PDFReadError
                  (''Error reading PDF structure from '' @ [CHR 0x27] @ path @ [CHR 0x27])
                  (Some e))),
        (one_of [LibFileNotFoundError],
           \<lambda>e. Inl (Exc PDFReadError
                  (''PDF file not found at '' @ [CHR 0x27] @ path @ [CHR 0x27]) (Some e))),
        (any_Exception,
           \<lambda>e. Inl (Exc PDFReadError
                  (''Unexpected error opening or reading PDF '' @ [CHR 0x27] @ path
                     @ [CHR 0x27]) (Some e)))]"

definition get_field_names :: "analyzer \<Rightarrow> string set option" where
  "get_field_names a = field_names a"

text \<open>\<open>', '.join(xs)\<close>.\<close>

fun join_comma :: "string list \<Rightarrow> string" where
  "join_comma [] = []"
| "join_comma [x] = x"
| "join_comma (x # y # ys) = x @ '', '' @ join_comma (y # ys)"

text \<open>Lines 108 to 114: the tokens of a button field.\<close>

definition button_export_values :: "field_props \<Rightarrow> string list" where
  "button_export_values properties =
     (let export_values =
        (case AP properties of
           None \<Rightarrow> []
         | Some APNotDict \<Rightarrow> []
         | Some (APDict None) \<Rightarrow> []
         | Some (APDict (Some NNotDict)) \<Rightarrow> []
         | Some (APDict (Some (NDict keys))) \<Rightarrow> keys)
      in if PDF_VALUE_CHECKBOX_OFF \<in> set export_values
         then remove1 PDF_VALUE_CHECKBOX_OFF export_values else export_values)"

text \<open>
  Lines 120 to 126: the tokens of a choice field. \<open>list_str\<close> is the builtin \<open>str\<close> on a
  list of strings. In the first comprehension \<open>len(opt)\<close> and \<open>opt[i]\<close> are applied to
  whatever the entry is: a string is indexed by character, an empty entry raises
  \<open>IndexError\<close> and an object without a length raises \<open>TypeError\<close>.
\<close>

fun pair_token :: "opt_entry \<Rightarrow> py_exc + string" where
  "pair_token (OptList xs) =
     (if length xs > 1 then Inr (xs ! 1)
      else if xs \<noteq> [] then Inr (xs ! 0)
      else Inl (Exc LibraryError ''list index out of range'' None))"
| "pair_token (OptStr s) =
     (if length s > 1 then Inr [s ! 1]
      else if s \<noteq> [] then Inr [s ! 0]
      else Inl (Exc LibraryError ''string index out of range'' None))"
| "pair_token (OptOther t) = Inl (Exc LibraryError ''object has no len()'' None)"

fun pair_tokens :: "opt_entry list \<Rightarrow> py_exc + string list" where
  "pair_tokens [] = Inr []"
| "pair_tokens (opt # rest) =
     (case pair_token opt of
        Inl e \<Rightarrow> Inl e
      | Inr t \<Rightarrow> (case pair_tokens rest of Inl e \<Rightarrow> Inl e | Inr ts \<Rightarrow> Inr (t # ts)))"

fun opt_str :: "(string list \<Rightarrow> string) \<Rightarrow> opt_entry \<Rightarrow> string" where
  "opt_str list_str (OptStr s) = s"
| "opt_str list_str (OptList xs) = list_str xs"
| "opt_str list_str (OptOther t) = t"

fun is_nonempty_list :: "opt_entry \<Rightarrow> bool" where
  "is_nonempty_list (OptList xs) = (length xs \<ge> 1)"
| "is_nonempty_list opt = False"

definition choice_export_values ::
  "(string list \<Rightarrow> string) \<Rightarrow> field_props \<Rightarrow> py_exc + string list" where
  "choice_export_values list_str properties =
     (case Opt properties of
        None \<Rightarrow> Inr []
      | Some [] \<Rightarrow> Inr []
      | Some (first # rest) \<Rightarrow>
          (if is_nonempty_list first then pair_tokens (first # rest)
           else Inr (map (opt_str list_str) (first # rest))))"

definition analyze_field ::
  "(string list \<Rightarrow> string) \<Rightarrow> string \<times> field_props \<Rightarrow> py_exc + string list" where
  "analyze_field list_str item =
     (case item of (name, properties) \<Rightarrow>
        if FT properties = Some FIELD_TYPE_BUTTON then
          (let export_values = button_export_values properties;
               info = ''Field '' @ [CHR 0x27] @ name @ [CHR 0x27]
                        @ '' (Button): Expected values ''
           in Inr [info @ (if export_values \<noteq> []
                           then ''(e.g., '' @ join_comma export_values @ '')''
                           else ''(Check PDF for values like '' @ PDF_VALUE_CHECKBOX_ON
                                  @ '', /On)'')])
        else if FT properties = Some FIELD_TYPE_CHOICE then
          (case choice_export_values list_str properties of
             Inl e \<Rightarrow> Inl e
           | Inr export_values \<Rightarrow>
               (let info = ''Field '' @ [CHR 0x27] @ name @ [CHR 0x27]
                             @ '' (Choice): Expected values ''
                in Inr [info @ (if export_values \<noteq> []
                                then '': '' @ join_comma export_values
                                else ''(Check PDF for options)'')]))
        else Inr [])"

fun analyze_items :: "(string list \<Rightarrow> string) \<Rightarrow> field_dict \<Rightarrow> py_exc + string list" where
  "analyze_items list_str [] = Inr []"
| "analyze_items list_str (item # rest) =
     (case analyze_field list_str item of
        Inl e \<Rightarrow> Inl e
      | Inr info \<Rightarrow>
          (case analyze_items list_str rest of Inl e \<Rightarrow> Inl e | Inr infos \<Rightarrow> Inr (info @ infos)))"

definition analyze_field_types :: "(string list \<Rightarrow> string) \<Rightarrow> analyzer \<Rightarrow> py_exc + string list" where
  "analyze_field_types list_str a =
     (case loaded_fields a of
        None \<Rightarrow> Inr []
      | Some [] \<Rightarrow> Inr []
      | Some items \<Rightarrow> analyze_items list_str items)"

section \<open>TemplateGenerator (pybulkpdf/core/template_generator.py)\<close>

definition TEMPLATE_SUFFIX :: string where
  "TEMPLATE_SUFFIX = ''_template.xlsx''"

record generator =
  gen_output_dir :: string
  base_filename :: string
  gen_analyzer :: analyzer

text \<open>
  \<open>_generate_excel_template\<close>. \<open>save_result\<close> is the exception raised while the workbook
  is built and saved, if any. On success the result is the path of the saved file
  together with the header row appended to its sheet.
\<close>

definition generate_excel_template ::
  "py_exc option \<Rightarrow> generator \<Rightarrow> py_exc + (string \<times> string list)" where
  "generate_excel_template save_result self =
     (case get_field_names (gen_analyzer self) of
        None \<Rightarrow>
          Inl (Exc ExcelWriteError
                 ''Cannot generate Excel template: PDF fields were not loaded.'' None)
      | Some field_names_set \<Rightarrow>
          (let field_names = sorted_list_of_set field_names_set;
               xlsx_filename = base_filename self @ TEMPLATE_SUFFIX;
               xlsx_filepath = os_path_join (gen_output_dir self) xlsx_filename;
               xlsx_headers = field_names @ [OUTPUT_FILENAME_COL]
           in try_except
                (case save_result of Some e \<Rightarrow> Inl e | None \<Rightarrow> Inr (xlsx_filepath, xlsx_headers))
                [(any_Exception,
                    \<lambda>e. Inl (Exc ExcelWriteError
                           (''Failed to create or save Excel template '' @ [CHR 0x27]
                              @ xlsx_filepath @ [CHR 0x27]) (Some e)))]))"

section \<open>Example data, after tests/test_form_filler.py\<close>

definition example_fs :: fs where
  "example_fs = \<lparr>files = {''input/template.pdf'', ''input/data.xlsx''}, dirs = {''output/filled''}\<rparr>"

definition example_reader :: "py_exc + (string \<times> unit) list option" where
  "example_reader = Inr (Some [(''Name'', ()), (''Date'', ()), (''Approved'', ())])"

definition example_headers :: "string list" where
  "example_headers = [''Name'', ''Date'', ''Approved'', ''_output_filename'']"

definition example_rows :: "cell list list" where
  "example_rows =
     [[PyStr ''Alice'', PyStr ''2025-04-16'', PyBool True, PyStr ''alice_report.pdf''],
      [PyStr ''Bob'', PyStr ''2025-04-17'', PyBool False, PyStr ''bob_report''],
      [PyStr ''Charlie'', PyNone, PyNone, PyStr ''''],
      [PyStr ''David'', PyStr ''2025-04-18'', PyStr ''Invalid'', PyStr ''david_report.pdf''],
      [PyNone, PyNone, PyNone, PyNone]]"

definition example_sheet :: worksheet where
  "example_sheet =
     \<lparr>header_row = Some (map PyStr example_headers), max_row = 6, data_rows = example_rows\<rparr>"

definition ok_run :: engine_run where
  "ok_run = \<lparr>clone_error = None, page_errors = [None], open_error = None, write_error = None\<rparr>"

definition disk_full :: py_exc where
  "disk_full = Exc LibraryError ''Disk full'' None"

definition example_engine :: "nat \<Rightarrow> doc_engine" where
  "example_engine n fill_data path =
     (if n = 5 then ok_run\<lparr>write_error := Some disk_full\<rparr> else ok_run)"

definition example_filler :: filler where
  "example_filler =
     \<lparr>template_path = ''input/template.pdf'', data_path = ''input/data.xlsx'',
      output_dir = ''output/filled'', overwrite = False,
      pdf_field_names = None, xlsx_headers = None, sheet = None, total_rows = 0,
      common_fields = None, row_count = 0, success_count = 0, failed_rows = []\<rparr>"

definition example_final :: filler where
  "example_final =
     example_filler\<lparr>
       pdf_field_names := Some {''Name'', ''Date'', ''Approved''},
       xlsx_headers := Some example_headers,
       sheet := Some example_sheet,
       total_rows := 5,
       common_fields := Some {''Name'', ''Date'', ''Approved''},
       row_count := 4, success_count := 2,
       failed_rows :=
         [(4, empty_filename_message),
          (5, ''PDF processing error: PDF write error for david_report.pdf (Original error: Disk full)'')]\<rparr>"

definition example_final_fs :: fs where
  "example_final_fs =
     example_fs\<lparr>files := {''output/filled/david_report.pdf'', ''output/filled/bob_report.pdf'',
      ''output/filled/alice_report.pdf'', ''input/template.pdf'', ''input/data.xlsx''}\<rparr>"





definition bob_row :: "cell list" where
  "bob_row = [PyStr ''Bob'', PyStr ''2025-04-17'', PyBool False, PyStr ''bob_report'']"

definition charlie_row :: "cell list" where
  "charlie_row = [PyStr ''Charlie'', PyNone, PyNone, PyStr '''']"

definition duplicate_headers :: "string list" where
  "duplicate_headers = [''Name'', ''_output_filename'', ''_output_filename'']"

definition duplicate_filler :: filler where
  "duplicate_filler =
     example_filler\<lparr>pdf_field_names := Some {''Name''}, xlsx_headers := Some duplicate_headers\<rparr>"

definition missing_sheet :: worksheet where
  "missing_sheet =
     \<lparr>header_row = Some [PyStr ''Name'', PyStr ''Date'', PyStr ''_Output_Filename''],
      max_row = 2, data_rows = [[PyStr ''Alice'', PyStr ''2025-04-16'', PyStr ''alice'']]\<rparr>"

definition fields_read :: filler where
  "fields_read = example_filler\<lparr>pdf_field_names := Some {''Name'', ''Date'', ''Approved''}\<rparr>"

definition missing_filler :: filler where
  "missing_filler =
     fields_read\<lparr>sheet := Some missing_sheet,
       xlsx_headers := Some [''Name'', ''Date'', ''_Output_Filename''], total_rows := 1\<rparr>"

definition required_column_message :: string where
  "required_column_message =
     ''Required column '' @ [CHR 0x27] @ ''_output_filename'' @ [CHR 0x27]
       @ '' not found in Excel file headers.''"

text \<open>
  The tokens as the specification words them, entry by entry: the second element of a
  display/export pair, the first element of a single-element entry, the string form
  of the raw entry otherwise.
\<close>

fun spec_choice_token :: "(string list \<Rightarrow> string) \<Rightarrow> opt_entry \<Rightarrow> string" where
  "spec_choice_token list_str (OptList (display # export # others)) = export"
| "spec_choice_token list_str (OptList [single]) = single"
| "spec_choice_token list_str opt = opt_str list_str opt"

text \<open>\<open>str()\<close> of a list of strings that need no escaping.\<close>

definition plain_list_str :: "string list \<Rightarrow> string" where
  "plain_list_str xs = ''['' @ join_comma (map (\<lambda>x. [CHR 0x27] @ x @ [CHR 0x27]) xs) @ '']''"

definition mixed_choice :: field_props where
  "mixed_choice =
     \<lparr>FT = Some ''/Ch'', AP = None,
      Opt = Some [OptList [''Display1'', ''Export1''], OptStr ''xyz'']\<rparr>"

definition paired_choice :: field_props where
  "paired_choice =
     \<lparr>FT = Some ''/Ch'', AP = None,
      Opt = Some [OptList [''Display1'', ''Export1''], OptList [''Display2'', ''Export2'']]\<rparr>"

definition checkbox :: field_props where
  "checkbox =
     \<lparr>FT = Some ''/Btn'', AP = Some (APDict (Some (NDict [''/Yes'', ''/Off'']))), Opt = None\<rparr>"

definition example_fields :: field_dict where
  "example_fields =
     [(''Name'', \<lparr>FT = Some ''/Tx'', AP = None, Opt = None\<rparr>),
      (''Date'', \<lparr>FT = Some ''/Tx'', AP = None, Opt = None\<rparr>),
      (''Approved'', checkbox)]"

definition example_analyzer :: analyzer where
  "example_analyzer =
     \<lparr>pdf_path = ''input/template.pdf'', loaded_fields = Some example_fields,
      field_names = Some {''Name'', ''Date'', ''Approved''}\<rparr>"

definition example_generator :: generator where
  "example_generator =
     \<lparr>gen_output_dir = ''output'', base_filename = ''template'',
      gen_analyzer = example_analyzer\<rparr>"

section \<open>Notions used in the statements\<close>

text \<open>The trimmed designator of a row (lines 245 to 247) and the path it is written to.\<close>

definition designator_of :: "string list \<Rightarrow> cell list \<Rightarrow> string" where
  "designator_of headers row_values =
     (let output_filename_raw = dict_get (make_row_dict headers row_values) OUTPUT_FILENAME_COL
      in if \<not> is_none output_filename_raw then strip (py_str output_filename_raw) else [])"

definition destination :: "string \<Rightarrow> string list \<Rightarrow> cell list \<Rightarrow> string" where
  "destination out headers row_values =
     os_path_join out (output_filename (designator_of headers row_values))"

text \<open>
  The failed/skipped list of a run in which every destination already exists: one
  entry per row that is not blank, in row order.
\<close>

fun rerun_report :: "string list \<Rightarrow> nat \<Rightarrow> cell list list \<Rightarrow> (nat \<times> string) list" where
  "rerun_report headers row_index [] = []"
| "rerun_report headers row_index (row_values # rest) =
     (if list_all is_none row_values then []
      else if designator_of headers row_values = [] then
        [(row_index + 2, empty_filename_message)]
      else
        [(row_index + 2,
          file_exists_message (output_filename (designator_of headers row_values)))])
     @ rerun_report headers (row_index + 1) rest"

section \<open>Example data for two runs\<close>

definition ok_engine :: "nat \<Rightarrow> doc_engine" where
  "ok_engine n fill_data path = ok_run"

definition clone_failing_engine :: "nat \<Rightarrow> doc_engine" where
  "clone_failing_engine n fill_data path =
     (if n = 2 then ok_run\<lparr>clone_error := Some (Exc PypdfReadError ''Clone fail'' None)\<rparr>
      else ok_run)"

definition rerun_final :: filler where
  "rerun_final =
     example_final\<lparr>row_count := 4, success_count := 0,
       failed_rows :=
         [(2, file_exists_message ''alice_report.pdf''),
          (3, file_exists_message ''bob_report.pdf''),
          (4, empty_filename_message),
          (5, file_exists_message ''david_report.pdf'')]\<rparr>"

definition ok_final :: filler where
  "ok_final =
     example_final\<lparr>row_count := 4, success_count := 3,
       failed_rows := [(4, empty_filename_message)]\<rparr>"

definition clone_failed_final :: filler where
  "clone_failed_final =
     example_final\<lparr>row_count := 4, success_count := 2,
       failed_rows :=
         [(2, ''PDF processing error: Template read error during cloning for alice_report.pdf (Original error: Clone fail)''),
          (4, empty_filename_message)]\<rparr>"

definition clone_failed_fs :: fs where
  "clone_failed_fs =
     example_fs\<lparr>files := {''output/filled/david_report.pdf'', ''output/filled/bob_report.pdf'',
       ''input/template.pdf'', ''input/data.xlsx''}\<rparr>"

definition recovered_final :: filler where
  "recovered_final =
     example_final\<lparr>row_count := 4, success_count := 1,
       failed_rows :=
         [(3, file_exists_message ''bob_report.pdf''),
          (4, empty_filename_message),
          (5, file_exists_message ''david_report.pdf'')]\<rparr>"

section \<open>Properties\<close>

subsection \<open>The tally, blank rows and coercion\<close>

lemma fill_row_returns:
  "\<exists>b msg f'. fill_row prepare fill row_dict name path f = (Inr (Some (b, msg)), f')"
  unfolding fill_row_def
  by (auto simp: any_Exception_def one_of_def split: sum.splits prod.splits)

lemma process_single_row_with_blank:
  "list_all is_none row_values \<Longrightarrow>
   process_single_row_with prepare fill self n row_values f = (Inr None, f)"
  by (simp add: process_single_row_with_def)

lemma process_single_row_with_nonblank:
  "\<not> list_all is_none row_values \<Longrightarrow>
   \<exists>b msg f'. process_single_row_with prepare fill self n row_values f
                 = (Inr (Some (b, msg)), f')"
  unfolding process_single_row_with_def Let_def
  using fill_row_returns [of prepare fill]
  by (auto split: option.splits)

lemma process_single_row_blank:
  "list_all is_none row_values \<Longrightarrow> process_single_row eng self n row_values f = (Inr None, f)"
  by (simp add: process_single_row_def process_single_row_with_blank)

lemma process_single_row_nonblank:
  "\<not> list_all is_none row_values \<Longrightarrow>
   \<exists>b msg f'. process_single_row eng self n row_values f = (Inr (Some (b, msg)), f')"
  unfolding process_single_row_def by (rule process_single_row_with_nonblank)

lemma run_loop_tally:
  "\<exists>self' f'. run_loop eng i rows self f = (Inr self', f') \<and>
     row_count self' = row_count self + length (filter (\<lambda>r. \<not> list_all is_none r) rows) \<and>
     success_count self' + length (failed_rows self') + row_count self
       = row_count self' + success_count self + length (failed_rows self) \<and>
     sheet self' = sheet self"
proof (induction rows arbitrary: i self f)
  case Nil
  show ?case by simp
next
  case (Cons r rows)
  show ?case
  proof (cases "list_all is_none r")
    case True
    then show ?thesis
      using Cons.IH [of "i + 1" self f]
      by (simp add: process_single_row_blank)
  next
    case False
    from process_single_row_nonblank [OF False, of "eng (i + 2)" self "i + 2" f]
    obtain b msg f1 where
      p: "process_single_row (eng (i + 2)) self (i + 2) r f = (Inr (Some (b, msg)), f1)"
      by blast
    show ?thesis
    proof (cases b)
      case True
      then show ?thesis
        using p False
          Cons.IH [of "i + 1" "self\<lparr>row_count := row_count self + 1,
                                       success_count := success_count self + 1\<rparr>" f1]
        by (auto simp: Let_def)
    next
      case b: False
      then show ?thesis
        using p False
          Cons.IH [of "i + 1" "self\<lparr>row_count := row_count self + 1,
                                       failed_rows := failed_rows self @ [(i + 2, msg)]\<rparr>" f1]
        by (auto simp: Let_def)
    qed
  qed
qed

lemma read_pdf_template_fields_Inr:
  "read_pdf_template_fields rr self = Inr s \<Longrightarrow>
   \<exists>names. s = self\<lparr>pdf_field_names := Some names\<rparr>"
  unfolding read_pdf_template_fields_def
  by (auto simp: any_Exception_def one_of_def split: sum.splits if_splits)

lemma read_excel_data_Inr:
  "read_excel_data wr self = Inr s \<Longrightarrow>
   \<exists>sh hs t. wr = Inr (Some sh) \<and>
     s = self\<lparr>sheet := Some sh, xlsx_headers := Some hs, total_rows := t\<rparr>"
  unfolding read_excel_data_def Let_def
  by (auto simp: any_Exception_def split: sum.splits option.splits if_splits)

lemma validate_headers_and_map_fields_Inr:
  "validate_headers_and_map_fields self = Inr s \<Longrightarrow>
   \<exists>common. s = self\<lparr>common_fields := Some common\<rparr>"
  unfolding validate_headers_and_map_fields_def Let_def
  by (auto split: option.splits if_splits)

lemma FormFiller_init_Inr:
  "FormFiller_init f0 template data out ow = Inr self \<Longrightarrow>
   row_count self = 0 \<and> success_count self = 0 \<and> failed_rows self = []"
  unfolding FormFiller_init_def by (auto split: if_splits)

text \<open>
  Claim C1. A run is started on a fresh instance. Whenever it completes its loop over
  the rows, the number of succeeded rows plus the number of entries of the
  failed/skipped list equals the number of rows counted as seen, and the rows counted
  as seen are exactly the rows of the sheet that are not entirely \<open>None\<close>.
\<close>

theorem run_tally_balanced:
  assumes init: "FormFiller_init f0 template data out ow = Inr self"
    and run: "run reader_result workbook_result eng self f = (Inr self', f')"
  shows "success_count self' + length (failed_rows self') = row_count self' \<and>
         (\<exists>sh. workbook_result = Inr (Some sh) \<and>
            row_count self' = length (filter (\<lambda>r. \<not> list_all is_none r) (data_rows sh)))"
proof -
  from run obtain s1 s2 s3 sh where
    s1: "read_pdf_template_fields reader_result self = Inr s1" and
    s2: "read_excel_data workbook_result s1 = Inr s2" and
    s3: "validate_headers_and_map_fields s2 = Inr s3" and
    sh: "sheet s3 = Some sh" and
    loop: "run_loop eng 0 (data_rows sh) s3 f = (Inr self', f')"
    unfolding run_def by (auto split: sum.splits option.splits)
  from read_pdf_template_fields_Inr [OF s1] read_excel_data_Inr [OF s2]
    validate_headers_and_map_fields_Inr [OF s3] sh FormFiller_init_Inr [OF init]
  have zero: "row_count s3 = 0" "success_count s3 = 0" "failed_rows s3 = []"
    and wb: "workbook_result = Inr (Some sh)"
    by auto
  from run_loop_tally [of eng 0 "data_rows sh" s3 f] loop zero wb
  show ?thesis by auto
qed

theorem run_tally_balanced_witness:
  "FormFiller_init example_fs ''input/template.pdf'' ''input/data.xlsx'' ''output/filled'' False
     = Inr example_filler \<and>
   run example_reader (Inr (Some example_sheet)) example_engine example_filler example_fs
     = (Inr example_final, example_final_fs) \<and>
   success_count example_final + length (failed_rows example_final) = row_count example_final \<and>
   row_count example_final = 4 \<and> length (data_rows example_sheet) = 5"
proof -
  have i: "FormFiller_init example_fs ''input/template.pdf'' ''input/data.xlsx''
             ''output/filled'' False = Inr example_filler"
    by code_simp
  have r: "run example_reader (Inr (Some example_sheet)) example_engine example_filler
             example_fs = (Inr example_final, example_final_fs)"
    by code_simp
  have c: "row_count example_final = 4 \<and> length (data_rows example_sheet) = 5"
    by code_simp
  from run_tally_balanced [OF i r] i r c show ?thesis by simp
qed

text \<open>
  Claim C5. A row whose cells are all \<open>None\<close> produces no outcome: the per-row
  operation returns \<open>None\<close> without touching the file system, and the loop goes on with
  the counters, the failed/skipped list and the file system it had before the row.
\<close>

theorem blank_row_no_outcome:
  assumes "list_all is_none row_values"
  shows "process_single_row eng self row_num row_values f = (Inr None, f) \<and>
         run_loop engs i [row_values] self f = (Inr self, f) \<and>
         run_loop engs i (row_values # rest) self f = run_loop engs (i + 1) rest self f"
  using assms by (simp add: process_single_row_blank)

theorem blank_row_no_outcome_witness:
  "list_all is_none [PyNone, PyNone, PyNone, PyNone] \<and>
   process_single_row (example_engine 6) example_final 6 [PyNone, PyNone, PyNone, PyNone]
     example_final_fs = (Inr None, example_final_fs) \<and>
   run_loop example_engine 4 [[PyNone, PyNone, PyNone, PyNone]] example_final example_final_fs
     = (Inr example_final, example_final_fs)"
proof -
  have b: "list_all is_none [PyNone, PyNone, PyNone, PyNone]" by simp
  from blank_row_no_outcome [OF b, of "example_engine 6" example_final 6 example_final_fs
      example_engine 4 "[]"] b
  show ?thesis by simp
qed

text \<open>
  Claim C4. Coercion is a function of the cell alone: \<open>True\<close> gives the on-token
  \<open>/Yes\<close>, \<open>False\<close> the off-token \<open>/Off\<close>, \<open>None\<close> (also a missing cell) the empty
  string, every other value its \<open>str()\<close>; coercing the resulting string again gives
  the same string; and the fill data holds exactly the coerced cell of every fillable
  field.
\<close>

theorem coercion_total_deterministic:
  "coerce_cell (PyBool True) = ''/Yes'' \<and>
   coerce_cell (PyBool False) = ''/Off'' \<and>
   coerce_cell PyNone = [] \<and>
   (\<forall>v. \<not> is_bool v \<and> \<not> is_none v \<longrightarrow> coerce_cell v = py_str v) \<and>
   (\<forall>v. coerce_cell (PyStr (coerce_cell v)) = coerce_cell v) \<and>
   (\<forall>cf row_dict field. field \<in> cf \<longrightarrow>
      prepare_fill_data (Some cf) row_dict field = Some (coerce_cell (dict_get row_dict field))) \<and>
   (\<forall>cf row_dict field. field \<notin> cf \<longrightarrow> prepare_fill_data (Some cf) row_dict field = None)"
proof -
  have "\<And>v. \<not> is_bool v \<and> \<not> is_none v \<longrightarrow> coerce_cell v = py_str v"
    by (case_tac v) simp_all
  then show ?thesis
    by (simp add: prepare_fill_data_def PDF_VALUE_CHECKBOX_ON_def PDF_VALUE_CHECKBOX_OFF_def)
qed

theorem coercion_total_deterministic_witness:
  "\<not> is_bool (PyInt 123) \<and> \<not> is_none (PyInt 123) \<and>
   coerce_cell (PyInt 123) = ''123'' \<and>
   ''Approved'' \<in> {''Name'', ''Date'', ''Approved''} \<and>
   prepare_fill_data (Some {''Name'', ''Date'', ''Approved''})
     (make_row_dict example_headers
        [PyStr ''Alice'', PyStr ''2025-04-16'', PyBool True, PyStr ''alice_report.pdf''])
     ''Approved'' = Some ''/Yes''"
proof -
  have a: "\<not> is_bool (PyInt 123) \<and> \<not> is_none (PyInt 123)" by simp
  have s: "py_str (PyInt 123) = ''123''" by code_simp
  have m: "''Approved'' \<in> {''Name'', ''Date'', ''Approved''}" by simp
  have g: "dict_get (make_row_dict example_headers
        [PyStr ''Alice'', PyStr ''2025-04-16'', PyBool True, PyStr ''alice_report.pdf''])
        ''Approved'' = PyBool True"
    by code_simp
  from coercion_total_deterministic a s m g show ?thesis by simp
qed

subsection \<open>Failures of a row stay in the row\<close>



lemma update_pages_ok: "update_pages rs = Inr ()"
  by (induction rs) (auto simp: any_Exception_def one_of_def split: option.splits)








subsection \<open>The output filename\<close>

lemma rev_dropWhile_split:
  "xs = rev (dropWhile P (rev xs)) @ rev (takeWhile P (rev xs))"
proof -
  have "rev (takeWhile P (rev xs) @ dropWhile P (rev xs)) = rev (rev xs)"
    by (simp only: takeWhile_dropWhile_id)
  then show ?thesis by (simp only: rev_append rev_rev_ident)
qed

lemma list_all_takeWhile: "list_all P (takeWhile P xs)"
  by (induction xs) auto

lemma strip_decompose:
  "\<exists>a b. s = a @ strip s @ b \<and> list_all py_isspace a \<and> list_all py_isspace b"
proof -
  let ?t = "dropWhile py_isspace s"
  let ?b = "rev (takeWhile py_isspace (rev ?t))"
  have 1: "s = takeWhile py_isspace s @ ?t" by simp
  have 2: "?t = strip s @ ?b"
    unfolding strip_def by (rule rev_dropWhile_split)
  have 3: "list_all py_isspace (takeWhile py_isspace s)" by (rule list_all_takeWhile)
  have 4: "list_all py_isspace ?b"
    using list_all_takeWhile [of py_isspace "rev ?t"] by (simp add: list_all_iff)
  from 1 2 have "s = takeWhile py_isspace s @ strip s @ ?b" by metis
  with 3 4 show ?thesis by blast
qed

lemma strip_ends:
  assumes "strip s \<noteq> []"
  shows "\<not> py_isspace (hd (strip s)) \<and> \<not> py_isspace (last (strip s))"
proof -
  define t where "t = dropWhile py_isspace s"
  define u where "u = dropWhile py_isspace (rev t)"
  have st: "strip s = rev u" by (simp add: strip_def t_def u_def)
  with assms have u: "u \<noteq> []" by simp
  have "\<not> py_isspace (hd u)" using u unfolding u_def by (rule hd_dropWhile)
  moreover have "last (strip s) = hd u" using u st by (simp add: last_rev)
  ultimately have l: "\<not> py_isspace (last (strip s))" by simp
  have split: "t = rev u @ rev (takeWhile py_isspace (rev t))"
    unfolding u_def by (rule rev_dropWhile_split)
  with u have tne: "t \<noteq> []" by auto
  have "\<not> py_isspace (hd t)" using tne unfolding t_def by (rule hd_dropWhile)
  moreover have "hd t = hd (strip s)" using split u st by (metis hd_append2 rev_is_Nil_conv)
  ultimately show ?thesis using l by simp
qed

lemma output_filename_any_case:
  assumes a: "lower ext = ''.pdf''"
  shows "output_filename (stem @ ext) = stem @ ext"
proof -
  have "length ext = length (lower ext)" by (simp add: lower_def)
  also have "\<dots> = 4" using a by simp
  finally have "length ext = 4" .
  with a have "endswith (lower (stem @ ext)) ''.pdf''"
    by (simp add: endswith_def lower_def)
  then show ?thesis by (simp add: output_filename_def)
qed

lemma process_single_row_nonblank_eq:
  assumes "\<not> list_all is_none row_values"
    and "xlsx_headers self = Some headers" and "common_fields self = Some cf"
  shows "process_single_row eng self n row_values f =
     (let row_dict = make_row_dict headers row_values;
          raw = dict_get row_dict OUTPUT_FILENAME_COL;
          trimmed = (if is_none raw then [] else strip (py_str raw));
          name = output_filename trimmed;
          path = os_path_join (output_dir self) name
      in if trimmed = [] then (Inr (Some (False, empty_filename_message)), f)
         else if \<not> overwrite self \<and> os_path_exists f path
              then (Inr (Some (False, file_exists_message name)), f)
              else fill_row (\<lambda>rd. Inr (prepare_fill_data (Some cf) rd)) (fill_single_pdf eng)
                     row_dict name path f)"
  using assms by (simp add: process_single_row_def process_single_row_with_def Let_def)

text \<open>
  Claim C6. For a row that is not blank, the designator cell is trimmed of surrounding
  whitespace. An empty result ends the row as failed with the reason
  \<open>'_output_filename' is empty\<close>. Otherwise the name used for the collision check, the
  output path and the messages is the trimmed value, with \<open>.pdf\<close> appended exactly when
  the lower-cased value does not end with \<open>.pdf\<close>; a value ending with \<open>.pdf\<close> in any
  letter case is unchanged. \<open>report\<close> becomes \<open>report.pdf\<close> and \<open>report.PDF\<close> stays.
\<close>

theorem filename_normalization:
  assumes "\<not> list_all is_none row_values"
    and "xlsx_headers self = Some headers" and "common_fields self = Some cf"
  shows
    "(let row_dict = make_row_dict headers row_values;
          raw = dict_get row_dict OUTPUT_FILENAME_COL;
          trimmed = (if is_none raw then [] else strip (py_str raw));
          name = output_filename trimmed;
          path = os_path_join (output_dir self) name
      in (\<not> is_none raw \<longrightarrow>
            (\<exists>a b. py_str raw = a @ trimmed @ b \<and> list_all py_isspace a \<and> list_all py_isspace b)) \<and>
         (trimmed \<noteq> [] \<longrightarrow> \<not> py_isspace (hd trimmed) \<and> \<not> py_isspace (last trimmed)) \<and>
         (trimmed = [] \<longrightarrow>
            process_single_row eng self n row_values f
              = (Inr (Some (False, empty_filename_message)), f)) \<and>
         (trimmed \<noteq> [] \<longrightarrow>
            process_single_row eng self n row_values f
              = (if \<not> overwrite self \<and> os_path_exists f path
                 then (Inr (Some (False, file_exists_message name)), f)
                 else fill_row (\<lambda>rd. Inr (prepare_fill_data (Some cf) rd)) (fill_single_pdf eng)
                        row_dict name path f)) \<and>
         (\<not> endswith (lower trimmed) ''.pdf'' \<longrightarrow> name = trimmed @ ''.pdf'') \<and>
         (endswith (lower trimmed) ''.pdf'' \<longrightarrow> name = trimmed)) \<and>
     (\<forall>stem ext. lower ext = ''.pdf'' \<longrightarrow> output_filename (stem @ ext) = stem @ ext) \<and>
     output_filename ''report'' = ''report.pdf'' \<and>
     output_filename ''report.PDF'' = ''report.PDF'' \<and>
     empty_filename_message = [CHR 0x27] @ ''_output_filename'' @ [CHR 0x27] @ '' is empty''"
proof -
  have ex: "output_filename ''report'' = ''report.pdf'' \<and>
     output_filename ''report.PDF'' = ''report.PDF''"
    by code_simp
  have msg: "empty_filename_message = [CHR 0x27] @ ''_output_filename'' @ [CHR 0x27] @ '' is empty''"
    by (simp add: empty_filename_message_def OUTPUT_FILENAME_COL_def)
  have anycase: "\<forall>stem ext. lower ext = ''.pdf'' \<longrightarrow> output_filename (stem @ ext) = stem @ ext"
    using output_filename_any_case by blast
  have row: "let row_dict = make_row_dict headers row_values;
          raw = dict_get row_dict OUTPUT_FILENAME_COL;
          trimmed = (if is_none raw then [] else strip (py_str raw));
          name = output_filename trimmed;
          path = os_path_join (output_dir self) name
      in (\<not> is_none raw \<longrightarrow>
            (\<exists>a b. py_str raw = a @ trimmed @ b \<and> list_all py_isspace a \<and> list_all py_isspace b)) \<and>
         (trimmed \<noteq> [] \<longrightarrow> \<not> py_isspace (hd trimmed) \<and> \<not> py_isspace (last trimmed)) \<and>
         (trimmed = [] \<longrightarrow>
            process_single_row eng self n row_values f
              = (Inr (Some (False, empty_filename_message)), f)) \<and>
         (trimmed \<noteq> [] \<longrightarrow>
            process_single_row eng self n row_values f
              = (if \<not> overwrite self \<and> os_path_exists f path
                 then (Inr (Some (False, file_exists_message name)), f)
                 else fill_row (\<lambda>rd. Inr (prepare_fill_data (Some cf) rd)) (fill_single_pdf eng)
                        row_dict name path f)) \<and>
         (\<not> endswith (lower trimmed) ''.pdf'' \<longrightarrow> name = trimmed @ ''.pdf'') \<and>
         (endswith (lower trimmed) ''.pdf'' \<longrightarrow> name = trimmed)"
    unfolding Let_def
    using strip_decompose strip_ends process_single_row_nonblank_eq [OF assms, of eng n f]
    by (simp add: Let_def output_filename_def)
  from row anycase ex msg show ?thesis by blast
qed

theorem filename_normalization_witness:
  "\<not> list_all is_none bob_row \<and> \<not> list_all is_none charlie_row \<and>
   xlsx_headers example_final = Some example_headers \<and>
   common_fields example_final = Some {''Name'', ''Date'', ''Approved''} \<and>
   strip (py_str (dict_get (make_row_dict example_headers bob_row) OUTPUT_FILENAME_COL))
     = ''bob_report'' \<and>
   process_single_row (example_engine 3) example_final 3 bob_row example_fs
     = (Inr (Some (True, ''Successfully generated bob_report.pdf'')),
        create_file ''output/filled/bob_report.pdf'' example_fs) \<and>
   strip (py_str (dict_get (make_row_dict example_headers charlie_row) OUTPUT_FILENAME_COL))
     = [] \<and>
   process_single_row (example_engine 4) example_final 4 charlie_row example_fs
     = (Inr (Some (False, empty_filename_message)), example_fs)"
proof -
  have b: "\<not> list_all is_none bob_row" by code_simp
  have c: "\<not> list_all is_none charlie_row" by code_simp
  have h: "xlsx_headers example_final = Some example_headers" by code_simp
  have cf: "common_fields example_final = Some {''Name'', ''Date'', ''Approved''}"
    by (simp add: example_final_def)
  have tb: "strip (py_str (dict_get (make_row_dict example_headers bob_row)
              OUTPUT_FILENAME_COL)) = ''bob_report''"
    by code_simp
  have tc: "strip (py_str (dict_get (make_row_dict example_headers charlie_row)
              OUTPUT_FILENAME_COL)) = []"
    by code_simp
  have pb: "process_single_row (example_engine 3) example_final 3 bob_row example_fs
     = (Inr (Some (True, ''Successfully generated bob_report.pdf'')),
        create_file ''output/filled/bob_report.pdf'' example_fs)"
    by code_simp
  have pc: "process_single_row (example_engine 4) example_final 4 charlie_row example_fs
     = (Inr (Some (False, empty_filename_message)), example_fs)"
    by code_simp
  from filename_normalization b c h cf tb tc pb pc
  show ?thesis by simp
qed

subsection \<open>Header validation\<close>

text \<open>
  Claim C7, as stated, fails: headers that hold the designator column twice pass the
  validation.
\<close>

theorem duplicate_designator_accepted:
  "count_list duplicate_headers OUTPUT_FILENAME_COL = 2 \<and>
   validate_headers_and_map_fields duplicate_filler
     = Inr (duplicate_filler\<lparr>common_fields := Some {''Name''}\<rparr>)"
  by code_simp

text \<open>
  Claim C7, amended. The designator column must appear at least once, compared
  case-sensitively, among the headers: without it the validation raises a
  \<open>ConfigurationError\<close> and the run ends with it before any row is processed and with
  the file system untouched; with it, however many times, and with a common field,
  the validation succeeds.
\<close>

theorem designator_column_required:
  assumes "pdf_field_names self = Some pdf_names" and "xlsx_headers self = Some headers"
  shows "(OUTPUT_FILENAME_COL \<notin> set headers \<longrightarrow>
            (\<exists>msg. validate_headers_and_map_fields self
                     = Inl (Exc ConfigurationError msg None))) \<and>
         (OUTPUT_FILENAME_COL \<in> set headers \<and>
          pdf_names \<inter> (set headers - {OUTPUT_FILENAME_COL}) \<noteq> {} \<longrightarrow>
            validate_headers_and_map_fields self
              = Inr (self\<lparr>common_fields :=
                       Some (pdf_names \<inter> (set headers - {OUTPUT_FILENAME_COL}))\<rparr>)) \<and>
         (\<forall>rr wr s1. read_pdf_template_fields rr s0 = Inr s1 \<and> read_excel_data wr s1 = Inr self \<and>
            OUTPUT_FILENAME_COL \<notin> set headers \<longrightarrow>
            (\<exists>msg. run rr wr engs s0 f = (Inl (Exc ConfigurationError msg None), f)))"
  using assms
  by (auto simp: validate_headers_and_map_fields_def run_def Let_def)

theorem designator_column_required_witness:
  "pdf_field_names missing_filler = Some {''Name'', ''Date'', ''Approved''} \<and>
   xlsx_headers missing_filler = Some [''Name'', ''Date'', ''_Output_Filename''] \<and>
   OUTPUT_FILENAME_COL \<notin> set [''Name'', ''Date'', ''_Output_Filename''] \<and>
   read_pdf_template_fields example_reader example_filler = Inr fields_read \<and>
   read_excel_data (Inr (Some missing_sheet)) fields_read = Inr missing_filler \<and>
   validate_headers_and_map_fields missing_filler
     = Inl (Exc ConfigurationError required_column_message None) \<and>
   run example_reader (Inr (Some missing_sheet)) example_engine example_filler example_fs
     = (Inl (Exc ConfigurationError required_column_message None), example_fs) \<and>
   pdf_field_names duplicate_filler = Some {''Name''} \<and>
   xlsx_headers duplicate_filler = Some duplicate_headers \<and>
   OUTPUT_FILENAME_COL \<in> set duplicate_headers \<and>
   {''Name''} \<inter> (set duplicate_headers - {OUTPUT_FILENAME_COL}) \<noteq> {}"
proof -
  have p: "pdf_field_names missing_filler = Some {''Name'', ''Date'', ''Approved''}"
    by (simp add: missing_filler_def fields_read_def)
  have x: "xlsx_headers missing_filler = Some [''Name'', ''Date'', ''_Output_Filename'']"
    by (simp add: missing_filler_def)
  have n: "OUTPUT_FILENAME_COL \<notin> set [''Name'', ''Date'', ''_Output_Filename'']"
    by (simp add: OUTPUT_FILENAME_COL_def)
  have r1: "read_pdf_template_fields example_reader example_filler = Inr fields_read"
    by code_simp
  have r2: "read_excel_data (Inr (Some missing_sheet)) fields_read = Inr missing_filler"
    by code_simp
  have v: "validate_headers_and_map_fields missing_filler
     = Inl (Exc ConfigurationError required_column_message None)"
    by code_simp
  have r: "run example_reader (Inr (Some missing_sheet)) example_engine example_filler example_fs
     = (Inl (Exc ConfigurationError required_column_message None), example_fs)"
    by code_simp
  have d: "pdf_field_names duplicate_filler = Some {''Name''} \<and>
   xlsx_headers duplicate_filler = Some duplicate_headers \<and>
   OUTPUT_FILENAME_COL \<in> set duplicate_headers \<and>
   {''Name''} \<inter> (set duplicate_headers - {OUTPUT_FILENAME_COL}) \<noteq> {}"
    by (simp add: duplicate_filler_def duplicate_headers_def OUTPUT_FILENAME_COL_def)
  from designator_column_required p x n r1 r2 v r d show ?thesis by simp
qed

subsection \<open>A template without fields\<close>

text \<open>
  Claim C3. A template without fields: the \<open>ConfigurationError\<close> raised inside the \<open>try\<close>
  of \<open>_read_pdf_template_fields\<close> is caught by its own \<open>except Exception\<close> clause, so
  the row-filling run ends with a \<open>PDFReadError\<close> that wraps it. The scaffold side
  loads an empty set of names and emits the designator column alone.
\<close>

theorem empty_catalog_reported_as_read_error:
  "read_pdf_template_fields (Inr None) self
     = Inl (Exc PDFReadError
              (''Unexpected error reading PDF template fields '' @ [CHR 0x27]
                 @ template_path self @ [CHR 0x27])
              (Some (Exc ConfigurationError
                       (''No fillable fields found in template PDF: '' @ template_path self)
                       None))) \<and>
   read_pdf_template_fields (Inr (Some [])) self = read_pdf_template_fields (Inr None) self \<and>
   fst (run (Inr None) workbook_result engs self f)
     = Inl (Exc PDFReadError
              (''Unexpected error reading PDF template fields '' @ [CHR 0x27]
                 @ template_path self @ [CHR 0x27])
              (Some (Exc ConfigurationError
                       (''No fillable fields found in template PDF: '' @ template_path self)
                       None))) \<and>
   PDFAnalyzer_load (Inr None) path
     = Inr \<lparr>pdf_path = path, loaded_fields = None, field_names = Some {}\<rparr> \<and>
   generate_excel_template None
       \<lparr>gen_output_dir = out, base_filename = base,
        gen_analyzer = \<lparr>pdf_path = path, loaded_fields = None, field_names = Some {}\<rparr>\<rparr>
     = Inr (os_path_join out (base @ TEMPLATE_SUFFIX), [OUTPUT_FILENAME_COL])"
  by (simp add: read_pdf_template_fields_def run_def PDFAnalyzer_load_def
      generate_excel_template_def get_field_names_def any_Exception_def one_of_def)

subsection \<open>The header row of the scaffold\<close>

lemma PDFAnalyzer_load_field_names:
  "PDFAnalyzer_load (Inr flds) path = Inr a \<Longrightarrow>
   field_names a = Some (case flds of None \<Rightarrow> {} | Some items \<Rightarrow> set (map fst items))"
  by (auto simp: PDFAnalyzer_load_def split: option.splits if_splits)

text \<open>
  Claim C10. The header row of the generated template is the field names in ascending
  order followed by the designator column, which is always present and always last.
\<close>

theorem scaffold_header_row:
  assumes "get_field_names (gen_analyzer self) = Some names" and "finite names"
  shows "generate_excel_template None self
           = Inr (os_path_join (gen_output_dir self) (base_filename self @ TEMPLATE_SUFFIX),
                  sorted_list_of_set names @ [OUTPUT_FILENAME_COL]) \<and>
         (\<forall>p hs. generate_excel_template save_result self = Inr (p, hs) \<longrightarrow>
            hs = sorted_list_of_set names @ [OUTPUT_FILENAME_COL] \<and>
            last hs = OUTPUT_FILENAME_COL \<and>
            butlast hs = sorted_list_of_set names) \<and>
         sorted (sorted_list_of_set names) \<and> distinct (sorted_list_of_set names) \<and>
         set (sorted_list_of_set names) = names \<and>
         (\<forall>rr path flds. PDFAnalyzer_load rr path = Inr (gen_analyzer self) \<and> rr = Inr flds \<longrightarrow>
            names = (case flds of None \<Rightarrow> {} | Some items \<Rightarrow> set (map fst items)))"
proof -
  have a: "generate_excel_template None self
           = Inr (os_path_join (gen_output_dir self) (base_filename self @ TEMPLATE_SUFFIX),
                  sorted_list_of_set names @ [OUTPUT_FILENAME_COL])"
    using assms by (simp add: generate_excel_template_def Let_def)
  have b: "\<forall>p hs. generate_excel_template save_result self = Inr (p, hs) \<longrightarrow>
            hs = sorted_list_of_set names @ [OUTPUT_FILENAME_COL] \<and>
            last hs = OUTPUT_FILENAME_COL \<and>
            butlast hs = sorted_list_of_set names"
    using assms
    by (cases save_result) (auto simp: generate_excel_template_def Let_def any_Exception_def)
  have c: "sorted (sorted_list_of_set names) \<and> distinct (sorted_list_of_set names) \<and>
         set (sorted_list_of_set names) = names"
    using assms by simp
  have d: "\<forall>rr path flds. PDFAnalyzer_load rr path = Inr (gen_analyzer self) \<and> rr = Inr flds \<longrightarrow>
            names = (case flds of None \<Rightarrow> {} | Some items \<Rightarrow> set (map fst items))"
    using assms(1) PDFAnalyzer_load_field_names [of _ _ "gen_analyzer self"]
    by (auto simp: get_field_names_def)
  from a b c d show ?thesis by blast
qed

theorem scaffold_header_row_witness:
  "get_field_names (gen_analyzer example_generator) = Some {''Name'', ''Date'', ''Approved''} \<and>
   finite {''Name'', ''Date'', ''Approved''} \<and>
   PDFAnalyzer_load (Inr (Some example_fields)) ''input/template.pdf''
     = Inr (gen_analyzer example_generator) \<and>
   generate_excel_template None example_generator
     = Inr (''output/template_template.xlsx'',
            [''Approved'', ''Date'', ''Name'', ''_output_filename''])"
proof -
  have g: "get_field_names (gen_analyzer example_generator)
             = Some {''Name'', ''Date'', ''Approved''}"
    by (simp add: example_generator_def example_analyzer_def get_field_names_def)
  have f: "finite {''Name'', ''Date'', ''Approved''}" by simp
  have l: "PDFAnalyzer_load (Inr (Some example_fields)) ''input/template.pdf''
     = Inr (gen_analyzer example_generator)"
    by (simp add: PDFAnalyzer_load_def example_fields_def example_generator_def
        example_analyzer_def insert_commute)
  have s: "sorted_list_of_set {''Name'', ''Date'', ''Approved''} = [''Approved'', ''Date'', ''Name'']"
    by (simp add: sorted_list_of_set.fold_insort_key.insert_remove)
  have p: "os_path_join (gen_output_dir example_generator)
             (base_filename example_generator @ TEMPLATE_SUFFIX) = ''output/template_template.xlsx''"
    by (simp add: os_path_join_def example_generator_def TEMPLATE_SUFFIX_def)
  have h: "generate_excel_template None example_generator
     = Inr (os_path_join (gen_output_dir example_generator)
              (base_filename example_generator @ TEMPLATE_SUFFIX),
            sorted_list_of_set {''Name'', ''Date'', ''Approved''} @ [OUTPUT_FILENAME_COL])"
    using scaffold_header_row [OF g f, of None] by (rule conjunct1)
  have e: "generate_excel_template None example_generator
     = Inr (''output/template_template.xlsx'',
            [''Approved'', ''Date'', ''Name'', ''_output_filename''])"
    unfolding h s p by (simp add: OUTPUT_FILENAME_COL_def)
  from g f l e show ?thesis by (intro conjI)
qed

subsection \<open>Tokens of choice and button fields\<close>

lemma is_nonempty_list_iff: "is_nonempty_list opt \<longleftrightarrow> (\<exists>x xs. opt = OptList (x # xs))"
  by (cases opt) (auto simp: Suc_le_eq neq_Nil_conv)

lemma filter_unchanged: "x \<notin> set xs \<Longrightarrow> xs = filter (\<lambda>k. k \<noteq> x) xs"
  by (induction xs) auto

lemma remove1_distinct_filter:
  "distinct xs \<Longrightarrow> remove1 x xs = filter (\<lambda>k. k \<noteq> x) xs"
proof (induction xs)
  case Nil
  show ?case by simp
next
  case (Cons y ys)
  show ?case
  proof (cases "x = y")
    case True
    with Cons.prems have "x \<notin> set ys" by simp
    then have "ys = filter (\<lambda>k. k \<noteq> x) ys" by (rule filter_unchanged)
    with True show ?thesis by simp
  next
    case False
    with Cons show ?thesis by simp
  qed
qed

lemma pair_tokens_uniform:
  "\<forall>opt \<in> set entries. is_nonempty_list opt \<Longrightarrow>
   pair_tokens entries = Inr (map (spec_choice_token list_str) entries)"
proof (induction entries)
  case Nil
  show ?case by simp
next
  case (Cons opt entries)
  then have ne: "is_nonempty_list opt" by simp
  then obtain x xs where o: "opt = OptList (x # xs)"
    by (auto simp: is_nonempty_list_iff)
  have "pair_token opt = Inr (spec_choice_token list_str opt)"
    unfolding o by (cases xs) auto
  with Cons show ?case by simp
qed

lemma opt_str_uniform:
  "\<not> is_nonempty_list opt \<Longrightarrow> opt_str list_str opt = spec_choice_token list_str opt"
  by (cases opt) (auto simp: Suc_le_eq)

text \<open>
  Claim C9, as stated, fails: in a list whose first entry is a pair, a bare string
  entry is indexed like a pair and yields its second character, not its string form.
\<close>

theorem choice_token_mixed_list:
  "Opt mixed_choice = Some [OptList [''Display1'', ''Export1''], OptStr ''xyz''] \<and>
   map (spec_choice_token plain_list_str) [OptList [''Display1'', ''Export1''], OptStr ''xyz'']
     = [''Export1'', ''xyz''] \<and>
   choice_export_values plain_list_str mixed_choice = Inr [''Export1'', ''y'']"
  by code_simp

text \<open>
  Claim C9, amended. The encoding of an options list is decided by its first entry
  alone. When the list is uniformly encoded (every entry a non-empty list, or no
  entry a non-empty list) each token is the second element of a pair, the first
  element of a single-element entry, and the string form of the entry otherwise. The
  tokens of a button field are the appearance-state keys without the off token.
\<close>

theorem field_tokens_by_first_entry:
  "(Opt properties = Some (first # rest) \<and>
    ((\<forall>opt \<in> set (first # rest). is_nonempty_list opt) \<or>
     (\<forall>opt \<in> set (first # rest). \<not> is_nonempty_list opt)) \<longrightarrow>
      choice_export_values list_str properties
        = Inr (map (spec_choice_token list_str) (first # rest))) \<and>
   (Opt properties = Some (first # rest) \<longrightarrow>
      choice_export_values list_str properties
        = (if is_nonempty_list first then pair_tokens (first # rest)
           else Inr (map (opt_str list_str) (first # rest)))) \<and>
   (AP properties = Some (APDict (Some (NDict keys))) \<and> distinct keys \<longrightarrow>
      button_export_values properties = filter (\<lambda>k. k \<noteq> PDF_VALUE_CHECKBOX_OFF) keys \<and>
      PDF_VALUE_CHECKBOX_OFF \<notin> set (button_export_values properties)) \<and>
   (FT properties = Some FIELD_TYPE_BUTTON \<and> button_export_values properties \<noteq> [] \<longrightarrow>
      analyze_field list_str (name, properties)
        = Inr [''Field '' @ [CHR 0x27] @ name @ [CHR 0x27] @ '' (Button): Expected values ''
                 @ ''(e.g., '' @ join_comma (button_export_values properties) @ '')'']) \<and>
   (FT properties = Some FIELD_TYPE_CHOICE \<and>
    choice_export_values list_str properties = Inr tokens \<and> tokens \<noteq> [] \<longrightarrow>
      analyze_field list_str (name, properties)
        = Inr [''Field '' @ [CHR 0x27] @ name @ [CHR 0x27] @ '' (Choice): Expected values ''
                 @ '': '' @ join_comma tokens])"
proof -
  have a: "Opt properties = Some (first # rest) \<and>
    ((\<forall>opt \<in> set (first # rest). is_nonempty_list opt) \<or>
     (\<forall>opt \<in> set (first # rest). \<not> is_nonempty_list opt)) \<longrightarrow>
      choice_export_values list_str properties
        = Inr (map (spec_choice_token list_str) (first # rest))"
  proof (intro impI, elim conjE disjE)
    assume o: "Opt properties = Some (first # rest)"
      and u: "\<forall>opt \<in> set (first # rest). is_nonempty_list opt"
    from u have "is_nonempty_list first" by simp
    with o pair_tokens_uniform [OF u, of list_str] show
      "choice_export_values list_str properties
         = Inr (map (spec_choice_token list_str) (first # rest))"
      by (simp add: choice_export_values_def)
  next
    assume o: "Opt properties = Some (first # rest)"
      and u: "\<forall>opt \<in> set (first # rest). \<not> is_nonempty_list opt"
    from u have "\<not> is_nonempty_list first" by simp
    moreover from u have
      "\<forall>opt \<in> set (first # rest). opt_str list_str opt = spec_choice_token list_str opt"
      using opt_str_uniform by blast
    then have "map (opt_str list_str) (first # rest)
        = map (spec_choice_token list_str) (first # rest)"
      by (simp only: map_eq_conv)
    ultimately show
      "choice_export_values list_str properties
         = Inr (map (spec_choice_token list_str) (first # rest))"
      using o by (simp add: choice_export_values_def)
  qed
  have b: "Opt properties = Some (first # rest) \<longrightarrow>
      choice_export_values list_str properties
        = (if is_nonempty_list first then pair_tokens (first # rest)
           else Inr (map (opt_str list_str) (first # rest)))"
    by (simp add: choice_export_values_def)
  have c: "AP properties = Some (APDict (Some (NDict keys))) \<and> distinct keys \<longrightarrow>
      button_export_values properties = filter (\<lambda>k. k \<noteq> PDF_VALUE_CHECKBOX_OFF) keys \<and>
      PDF_VALUE_CHECKBOX_OFF \<notin> set (button_export_values properties)"
  proof (intro impI, elim conjE)
    assume ap: "AP properties = Some (APDict (Some (NDict keys)))" and d: "distinct keys"
    have "remove1 PDF_VALUE_CHECKBOX_OFF keys = filter (\<lambda>k. k \<noteq> PDF_VALUE_CHECKBOX_OFF) keys"
      using d by (rule remove1_distinct_filter)
    moreover have "PDF_VALUE_CHECKBOX_OFF \<notin> set keys \<Longrightarrow>
        keys = filter (\<lambda>k. k \<noteq> PDF_VALUE_CHECKBOX_OFF) keys"
      by (rule filter_unchanged)
    ultimately have "button_export_values properties
        = filter (\<lambda>k. k \<noteq> PDF_VALUE_CHECKBOX_OFF) keys"
      using ap by (auto simp: button_export_values_def Let_def)
    then show "button_export_values properties = filter (\<lambda>k. k \<noteq> PDF_VALUE_CHECKBOX_OFF) keys \<and>
      PDF_VALUE_CHECKBOX_OFF \<notin> set (button_export_values properties)"
      by simp
  qed
  have d: "FT properties = Some FIELD_TYPE_BUTTON \<and> button_export_values properties \<noteq> [] \<longrightarrow>
      analyze_field list_str (name, properties)
        = Inr [''Field '' @ [CHR 0x27] @ name @ [CHR 0x27] @ '' (Button): Expected values ''
                 @ ''(e.g., '' @ join_comma (button_export_values properties) @ '')'']"
    by (simp add: analyze_field_def Let_def)
  have e: "FT properties = Some FIELD_TYPE_CHOICE \<and>
    choice_export_values list_str properties = Inr tokens \<and> tokens \<noteq> [] \<longrightarrow>
      analyze_field list_str (name, properties)
        = Inr [''Field '' @ [CHR 0x27] @ name @ [CHR 0x27] @ '' (Choice): Expected values ''
                 @ '': '' @ join_comma tokens]"
    by (simp add: analyze_field_def Let_def FIELD_TYPE_CHOICE_def FIELD_TYPE_BUTTON_def)
  from a b c d e show ?thesis by blast
qed

theorem field_tokens_by_first_entry_witness:
  "Opt paired_choice
     = Some [OptList [''Display1'', ''Export1''], OptList [''Display2'', ''Export2'']] \<and>
   list_all is_nonempty_list
     [OptList [''Display1'', ''Export1''], OptList [''Display2'', ''Export2'']] \<and>
   choice_export_values plain_list_str paired_choice = Inr [''Export1'', ''Export2''] \<and>
   FT paired_choice = Some FIELD_TYPE_CHOICE \<and>
   analyze_field plain_list_str (''ChoiceField'', paired_choice)
     = Inr [''Field '' @ [CHR 0x27] @ ''ChoiceField'' @ [CHR 0x27]
              @ '' (Choice): Expected values : Export1, Export2''] \<and>
   AP checkbox = Some (APDict (Some (NDict [''/Yes'', ''/Off'']))) \<and>
   distinct [''/Yes'', ''/Off''] \<and>
   FT checkbox = Some FIELD_TYPE_BUTTON \<and>
   button_export_values checkbox = [''/Yes''] \<and>
   analyze_field plain_list_str (''CheckBoxField'', checkbox)
     = Inr [''Field '' @ [CHR 0x27] @ ''CheckBoxField'' @ [CHR 0x27]
              @ '' (Button): Expected values (e.g., /Yes)'']"
proof -
  have 1: "Opt paired_choice
     = Some [OptList [''Display1'', ''Export1''], OptList [''Display2'', ''Export2'']]"
    by (simp add: paired_choice_def)
  have 2: "\<forall>opt \<in> set [OptList [''Display1'', ''Export1''], OptList [''Display2'', ''Export2'']].
      is_nonempty_list opt"
    by simp
  have 3: "FT paired_choice = Some FIELD_TYPE_CHOICE"
    by (simp add: paired_choice_def FIELD_TYPE_CHOICE_def)
  have 4: "AP checkbox = Some (APDict (Some (NDict [''/Yes'', ''/Off''])))"
    by (simp add: checkbox_def)
  have 5: "distinct [''/Yes'', ''/Off'']" by simp
  have 6: "FT checkbox = Some FIELD_TYPE_BUTTON"
    by (simp add: checkbox_def FIELD_TYPE_BUTTON_def)
  have 7: "choice_export_values plain_list_str paired_choice = Inr [''Export1'', ''Export2'']"
    by code_simp
  have 8: "button_export_values checkbox = [''/Yes'']"
    by code_simp
  have 9: "analyze_field plain_list_str (''ChoiceField'', paired_choice)
     = Inr [''Field '' @ [CHR 0x27] @ ''ChoiceField'' @ [CHR 0x27]
              @ '' (Choice): Expected values : Export1, Export2'']"
    by code_simp
  have 10: "analyze_field plain_list_str (''CheckBoxField'', checkbox)
     = Inr [''Field '' @ [CHR 0x27] @ ''CheckBoxField'' @ [CHR 0x27]
              @ '' (Button): Expected values (e.g., /Yes)'']"
    by code_simp
  from field_tokens_by_first_entry
    [of paired_choice "OptList [''Display1'', ''Export1'']" "[OptList [''Display2'', ''Export2'']]"
       plain_list_str "[''/Yes'', ''/Off'']" "''ChoiceField''" "[''Export1'', ''Export2'']"]
    field_tokens_by_first_entry
    [of checkbox "OptList [''Display1'', ''Export1'']" "[OptList [''Display2'', ''Export2'']]"
       plain_list_str "[''/Yes'', ''/Off'']" "''CheckBoxField''" "[''Export1'', ''Export2'']"]
    1 2 3 4 5 6 7 8 9 10
  show ?thesis by simp
qed

subsection \<open>Running twice without overwrite\<close>

lemma fill_body_fs:
  "snd (fill_body r path f) = f \<or> snd (fill_body r path f) = create_file path f"
  by (simp add: fill_body_def update_pages_ok split: option.splits)

lemma fill_body_creates:
  "clone_error r = None \<Longrightarrow> open_error r = None \<Longrightarrow>
   snd (fill_body r path f) = create_file path f"
  by (simp add: fill_body_def update_pages_ok split: option.splits)

lemma fill_single_pdf_snd:
  "snd (fill_single_pdf eng d path f) = snd (fill_body (eng d path) path f)"
  by (simp add: fill_single_pdf_def split: prod.splits)

lemma fill_row_snd:
  "snd (fill_row (\<lambda>rd. Inr (prep rd)) (fill_single_pdf eng) row_dict name path f)
     = snd (fill_body (eng (prep row_dict) path) path f)"
  unfolding fill_row_def
  using fill_single_pdf_snd [of eng "prep row_dict" path f]
  by (auto split: prod.splits sum.splits)

lemma exists_create_file:
  "os_path_exists (create_file p f) q \<longleftrightarrow> q = p \<or> os_path_exists f q"
  by (auto simp: os_path_exists_def create_file_def)

lemma process_single_row_cases:
  assumes "\<not> list_all is_none row_values"
    and "xlsx_headers self = Some headers" and "common_fields self = Some cf"
  shows "process_single_row eng self n row_values f =
     (if designator_of headers row_values = [] then
        (Inr (Some (False, empty_filename_message)), f)
      else if \<not> overwrite self \<and>
              os_path_exists f (destination (output_dir self) headers row_values) then
        (Inr (Some (False,
           file_exists_message (output_filename (designator_of headers row_values)))), f)
      else fill_row (\<lambda>rd. Inr (prepare_fill_data (Some cf) rd)) (fill_single_pdf eng)
             (make_row_dict headers row_values)
             (output_filename (designator_of headers row_values))
             (destination (output_dir self) headers row_values) f)"
  using assms
  by (simp add: process_single_row_def process_single_row_with_def Let_def
      designator_of_def destination_def)

lemma process_single_row_grows:
  assumes "xlsx_headers self = Some headers" and "common_fields self = Some cf"
    and "process_single_row eng self n row_values f = (r, f1)"
  shows "\<forall>p. os_path_exists f p \<longrightarrow> os_path_exists f1 p"
proof (cases "list_all is_none row_values")
  case True
  with assms(3) show ?thesis by (simp add: process_single_row_blank)
next
  case False
  have "f1 = f \<or> f1 = create_file (destination (output_dir self) headers row_values) f"
    using assms(3) process_single_row_cases [OF False assms(1,2), of eng n f]
      fill_row_snd [of "prepare_fill_data (Some cf)" eng "make_row_dict headers row_values"
        "output_filename (designator_of headers row_values)"
        "destination (output_dir self) headers row_values" f]
      fill_body_fs [of _ "destination (output_dir self) headers row_values" f]
    by (auto split: if_splits)
  then show ?thesis by (auto simp: exists_create_file)
qed

lemma process_single_row_covers:
  assumes "\<not> list_all is_none row_values"
    and "xlsx_headers self = Some headers" and "common_fields self = Some cf"
    and "overwrite self = False"
    and "\<forall>d p. clone_error (eng d p) = None \<and> open_error (eng d p) = None"
    and "designator_of headers row_values \<noteq> []"
    and "process_single_row eng self n row_values f = (r, f1)"
  shows "os_path_exists f1 (destination (output_dir self) headers row_values)"
proof (cases "os_path_exists f (destination (output_dir self) headers row_values)")
  case True
  with process_single_row_grows [OF assms(2,3,7)] show ?thesis by blast
next
  case False
  have "f1 = snd (fill_body
          (eng (prepare_fill_data (Some cf) (make_row_dict headers row_values))
             (destination (output_dir self) headers row_values))
          (destination (output_dir self) headers row_values) f)"
    using assms(4,6,7) False process_single_row_cases [OF assms(1,2,3), of eng n f]
      fill_row_snd [of "prepare_fill_data (Some cf)" eng "make_row_dict headers row_values"
        "output_filename (designator_of headers row_values)"
        "destination (output_dir self) headers row_values" f]
    by (metis snd_conv)
  also have "\<dots> = create_file (destination (output_dir self) headers row_values) f"
    using assms(5) by (intro fill_body_creates) auto
  finally show ?thesis by (simp add: exists_create_file)
qed

lemma run_loop_Cons_blank:
  "list_all is_none row \<Longrightarrow>
   run_loop eng i (row # rest) self f = run_loop eng (i + 1) rest self f"
  by (simp add: process_single_row_blank)

lemma run_loop_Cons_nonblank:
  assumes "process_single_row (eng (i + 2)) self (i + 2) row f = (Inr (Some (b, msg)), f1)"
  shows "\<exists>self1. run_loop eng i (row # rest) self f = run_loop eng (i + 1) rest self1 f1 \<and>
           xlsx_headers self1 = xlsx_headers self \<and> common_fields self1 = common_fields self \<and>
           overwrite self1 = overwrite self \<and> output_dir self1 = output_dir self"
  using assms by (cases b) (auto simp: Let_def)

lemma run_loop_covers:
  assumes "xlsx_headers self = Some headers" and "common_fields self = Some cf"
    and "overwrite self = False"
    and "\<forall>n d p. clone_error (eng n d p) = None \<and> open_error (eng n d p) = None"
    and "run_loop eng i rows self f = (r, f')"
  shows "(\<forall>p. os_path_exists f p \<longrightarrow> os_path_exists f' p) \<and>
         (\<forall>row \<in> set rows. \<not> list_all is_none row \<and> designator_of headers row \<noteq> [] \<longrightarrow>
            os_path_exists f' (destination (output_dir self) headers row))"
  using assms
proof (induction rows arbitrary: i self f)
  case Nil
  then show ?case by simp
next
  case (Cons row rows)
  show ?case
  proof (cases "list_all is_none row")
    case True
    from Cons.prems(5) [unfolded run_loop_Cons_blank [OF True]]
    have "run_loop eng (i + 1) rows self f = (r, f')" .
    from Cons.IH [OF Cons.prems(1,2,3,4) this] True show ?thesis by simp
  next
    case False
    from process_single_row_nonblank [OF False, of "eng (i + 2)" self "i + 2" f]
    obtain b msg f1 where
      p: "process_single_row (eng (i + 2)) self (i + 2) row f = (Inr (Some (b, msg)), f1)"
      by blast
    from run_loop_Cons_nonblank [where eng = eng and i = i and rest = rows, OF p]
    obtain self1 where
      e: "run_loop eng i (row # rows) self f = run_loop eng (i + 1) rows self1 f1" and
      s: "xlsx_headers self1 = xlsx_headers self" "common_fields self1 = common_fields self"
         "overwrite self1 = overwrite self" "output_dir self1 = output_dir self"
      by blast
    from Cons.prems(5) [unfolded e] have l: "run_loop eng (i + 1) rows self1 f1 = (r, f')" .
    from s Cons.prems have s1: "xlsx_headers self1 = Some headers"
      "common_fields self1 = Some cf" "overwrite self1 = False"
      by simp_all
    note ih = Cons.IH [OF s1 Cons.prems(4) l]
    have g: "\<forall>p. os_path_exists f p \<longrightarrow> os_path_exists f1 p"
      by (rule process_single_row_grows [OF Cons.prems(1,2) p])
    have c: "designator_of headers row \<noteq> [] \<longrightarrow>
        os_path_exists f1 (destination (output_dir self) headers row)"
      using process_single_row_covers [OF False Cons.prems(1,2,3) _ _ p] Cons.prems(4)
      by blast
    from ih g c s(4) show ?thesis by auto
  qed
qed

lemma run_loop_rerun:
  assumes "xlsx_headers self = Some headers" and "common_fields self = Some cf"
    and "overwrite self = False"
    and "\<forall>row \<in> set rows. \<not> list_all is_none row \<and> designator_of headers row \<noteq> [] \<longrightarrow>
            os_path_exists f (destination (output_dir self) headers row)"
  shows "run_loop eng i rows self f =
           (Inr (self\<lparr>row_count := row_count self
                                  + length (filter (\<lambda>r. \<not> list_all is_none r) rows),
                       failed_rows := failed_rows self @ rerun_report headers i rows\<rparr>), f)"
  using assms
proof (induction rows arbitrary: i self)
  case Nil
  then show ?case by simp
next
  case (Cons row rows)
  show ?case
  proof (cases "list_all is_none row")
    case True
    with Cons.IH [OF Cons.prems(1,2,3), of "i + 1"] Cons.prems(4) show ?thesis
      by (simp add: process_single_row_blank)
  next
    case False
    define msg where "msg =
      (if designator_of headers row = [] then empty_filename_message
       else file_exists_message (output_filename (designator_of headers row)))"
    have p: "process_single_row (eng (i + 2)) self (i + 2) row f = (Inr (Some (False, msg)), f)"
      using process_single_row_cases [OF False Cons.prems(1,2), of "eng (i + 2)" "i + 2" f]
        Cons.prems(3,4) False
      by (simp add: msg_def)
    let ?self1 = "self\<lparr>row_count := row_count self + 1,
                         failed_rows := failed_rows self @ [(i + 2, msg)]\<rparr>"
    have ih: "run_loop eng (i + 1) rows ?self1 f =
           (Inr (?self1\<lparr>row_count := row_count ?self1
                                  + length (filter (\<lambda>r. \<not> list_all is_none r) rows),
                       failed_rows := failed_rows ?self1 @ rerun_report headers (i + 1) rows\<rparr>), f)"
      using Cons.prems by (intro Cons.IH) simp_all
    have "run_loop eng i (row # rows) self f = run_loop eng (i + 1) rows ?self1 f"
      using p by (simp add: Let_def)
    with ih False show ?thesis by (simp add: msg_def)
  qed
qed

lemma fill_body_files:
  "files f \<subseteq> files (snd (fill_body r path f)) \<and> dirs (snd (fill_body r path f)) = dirs f"
  using fill_body_fs [of r path f] by (auto simp: create_file_def)

lemma process_single_row_files:
  assumes "process_single_row eng self n row_values f = (r, f1)"
  shows "files f \<subseteq> files f1 \<and> dirs f1 = dirs f"
proof -
  have "f1 = f \<or> (\<exists>rn path. f1 = snd (fill_body rn path f))"
    using assms
    unfolding process_single_row_def process_single_row_with_def Let_def
    by (auto split: if_splits option.splits simp: fill_row_snd) (metis fill_row_snd snd_conv)+
  then show ?thesis using fill_body_files by auto
qed

lemma run_loop_files:
  "run_loop eng i rows self f = (r, f') \<Longrightarrow> files f \<subseteq> files f' \<and> dirs f' = dirs f"
proof (induction rows arbitrary: i self f)
  case Nil
  then show ?case by simp
next
  case (Cons row rows)
  show ?case
  proof (cases "list_all is_none row")
    case True
    from Cons.prems [unfolded run_loop_Cons_blank [OF True]]
    show ?thesis by (rule Cons.IH)
  next
    case False
    from process_single_row_nonblank [OF False, of "eng (i + 2)" self "i + 2" f]
    obtain b msg f1 where
      p: "process_single_row (eng (i + 2)) self (i + 2) row f = (Inr (Some (b, msg)), f1)"
      by blast
    from run_loop_Cons_nonblank [where eng = eng and i = i and rest = rows, OF p]
    obtain self1 where
      e: "run_loop eng i (row # rows) self f = run_loop eng (i + 1) rows self1 f1"
      by blast
    from Cons.prems [unfolded e] have "files f1 \<subseteq> files f' \<and> dirs f' = dirs f1"
      by (rule Cons.IH)
    with process_single_row_files [OF p] show ?thesis by auto
  qed
qed

lemma length_rerun_report:
  "length (rerun_report headers i rows) = length (filter (\<lambda>r. \<not> list_all is_none r) rows)"
  by (induction rows arbitrary: i) auto

lemma rerun_report_marks:
  "row \<in> set rows \<Longrightarrow> \<not> list_all is_none row \<Longrightarrow> designator_of headers row \<noteq> [] \<Longrightarrow>
   \<exists>n. (n, file_exists_message (output_filename (designator_of headers row)))
          \<in> set (rerun_report headers i rows)"
proof (induction rows arbitrary: i)
  case Nil
  then show ?case by simp
next
  case (Cons r rows)
  show ?case
  proof (cases "row = r")
    case True
    with Cons.prems show ?thesis by auto
  next
    case False
    with Cons.prems have "row \<in> set rows" by simp
    from Cons.IH [OF this Cons.prems(2,3), of "i + 1"] show ?thesis by auto
  qed
qed

lemma FormFiller_init_overwrite:
  "FormFiller_init f0 template data out ow = Inr self \<Longrightarrow>
   overwrite self = ow \<and> os_path_isfile f0 template \<and> os_path_isfile f0 data \<and>
   os_path_isdir f0 out"
  unfolding FormFiller_init_def by (auto split: if_splits)

lemma FormFiller_init_same:
  assumes "FormFiller_init f0 template data out ow = Inr self"
    and "files f0 \<subseteq> files f1" and "dirs f1 = dirs f0"
  shows "FormFiller_init f1 template data out ow = Inr self"
  using assms unfolding FormFiller_init_def os_path_isfile_def os_path_isdir_def
  by (auto split: if_splits)

text \<open>
  Claim C8, amended. Two runs on fresh instances, the same data source and the same
  output directory, overwrite disabled, where in the first run the document library
  never failed before the output file was created. The second run then leaves the
  file system as it found it, no row succeeds, and its failed/skipped list holds, in
  row order, the output-exists reason for every row with a designator and the
  empty-designator reason for every other row that is not blank; blank rows produce
  nothing, as before.
\<close>

theorem rerun_without_overwrite:
  assumes init: "FormFiller_init f0 template data out False = Inr s0"
    and first: "run reader_result workbook_result eng1 s0 f0 = (Inr s1, f1)"
    and created: "\<forall>n d p. clone_error (eng1 n d p) = None \<and> open_error (eng1 n d p) = None"
  shows "\<exists>s2 headers sh.
           FormFiller_init f1 template data out False = Inr s0 \<and>
           run reader_result workbook_result eng2 s0 f1 = (Inr s2, f1) \<and>
           xlsx_headers s2 = Some headers \<and> sheet s2 = Some sh \<and>
           success_count s2 = 0 \<and> row_count s2 = row_count s1 \<and>
           failed_rows s2 = rerun_report headers 0 (data_rows sh) \<and>
           length (failed_rows s2) = row_count s2 \<and>
           (\<forall>row \<in> set (data_rows sh).
              \<not> list_all is_none row \<and> designator_of headers row \<noteq> [] \<longrightarrow>
              (\<exists>n. (n, file_exists_message (output_filename (designator_of headers row)))
                     \<in> set (failed_rows s2)))"
proof -
  from first obtain a1 a2 a3 sh where
    r1: "read_pdf_template_fields reader_result s0 = Inr a1" and
    r2: "read_excel_data workbook_result a1 = Inr a2" and
    r3: "validate_headers_and_map_fields a2 = Inr a3" and
    sh: "sheet a3 = Some sh" and
    loop1: "run_loop eng1 0 (data_rows sh) a3 f0 = (Inr s1, f1)"
    unfolding run_def by (auto split: sum.splits option.splits)
  from read_pdf_template_fields_Inr [OF r1] read_excel_data_Inr [OF r2]
    validate_headers_and_map_fields_Inr [OF r3]
  obtain names sh' hs t common where
    a3: "a3 = s0\<lparr>pdf_field_names := Some names, sheet := Some sh', xlsx_headers := Some hs,
                  total_rows := t, common_fields := Some common\<rparr>"
    by auto
  from FormFiller_init_overwrite [OF init] FormFiller_init_Inr [OF init] a3
  have ow: "overwrite a3 = False" and hd: "xlsx_headers a3 = Some hs"
    and cf: "common_fields a3 = Some common"
    and zero: "row_count a3 = 0" "success_count a3 = 0" "failed_rows a3 = []"
    by simp_all
  from run_loop_covers [OF hd cf ow created loop1]
  have covered: "\<forall>row \<in> set (data_rows sh).
      \<not> list_all is_none row \<and> designator_of hs row \<noteq> [] \<longrightarrow>
      os_path_exists f1 (destination (output_dir a3) hs row)"
    by blast
  define s2 where "s2 = a3\<lparr>row_count := row_count a3
                              + length (filter (\<lambda>r. \<not> list_all is_none r) (data_rows sh)),
                            failed_rows := failed_rows a3 @ rerun_report hs 0 (data_rows sh)\<rparr>"
  have loop2: "run_loop eng2 0 (data_rows sh) a3 f1 = (Inr s2, f1)"
    unfolding s2_def by (rule run_loop_rerun [OF hd cf ow covered])
  have run2: "run reader_result workbook_result eng2 s0 f1 = (Inr s2, f1)"
    using r1 r2 r3 sh loop2 by (simp add: run_def)
  from run_loop_files [OF loop1] have grow: "files f0 \<subseteq> files f1" "dirs f1 = dirs f0"
    by simp_all
  have init2: "FormFiller_init f1 template data out False = Inr s0"
    by (rule FormFiller_init_same [OF init grow])
  from run_loop_tally [of eng1 0 "data_rows sh" a3 f0] loop1 zero
  have rc1: "row_count s1 = length (filter (\<lambda>r. \<not> list_all is_none r) (data_rows sh))"
    by auto
  have props: "xlsx_headers s2 = Some hs" "sheet s2 = Some sh" "success_count s2 = 0"
    "row_count s2 = row_count s1" "failed_rows s2 = rerun_report hs 0 (data_rows sh)"
    using hd sh zero rc1 by (simp_all add: s2_def)
  have len: "length (failed_rows s2) = row_count s2"
    using props(4,5) rc1 by (simp add: length_rerun_report)
  have marks: "\<forall>row \<in> set (data_rows sh).
              \<not> list_all is_none row \<and> designator_of hs row \<noteq> [] \<longrightarrow>
              (\<exists>n. (n, file_exists_message (output_filename (designator_of hs row)))
                     \<in> set (failed_rows s2))"
    unfolding props(5) using rerun_report_marks by blast
  from init2 run2 props len marks show ?thesis by blast
qed

text \<open>
  Claim C8, as stated, fails twice. A row with an empty designator is reported on the
  second run with the empty-designator reason, not with the output-exists reason.
  And a row whose template clone failed on the first run left no file behind, so the
  second run generates it: one new artifact.
\<close>

theorem rerun_not_all_output_exists:
  "run example_reader (Inr (Some example_sheet)) example_engine example_filler example_fs
     = (Inr example_final, example_final_fs) \<and>
   run example_reader (Inr (Some example_sheet)) example_engine example_filler example_final_fs
     = (Inr rerun_final, example_final_fs) \<and>
   failed_rows rerun_final ! 2 = (4, empty_filename_message) \<and>
   take 18 (snd (failed_rows rerun_final ! 2)) \<noteq> ''Output file exists'' \<and>
   run example_reader (Inr (Some example_sheet)) clone_failing_engine example_filler example_fs
     = (Inr clone_failed_final, clone_failed_fs) \<and>
   run example_reader (Inr (Some example_sheet)) ok_engine example_filler clone_failed_fs
     = (Inr recovered_final, example_final_fs) \<and>
   success_count recovered_final = 1 \<and>
   ''output/filled/alice_report.pdf'' \<in> files example_final_fs - files clone_failed_fs"
  by code_simp

theorem rerun_without_overwrite_witness:
  "FormFiller_init example_fs ''input/template.pdf'' ''input/data.xlsx'' ''output/filled'' False
     = Inr example_filler \<and>
   run example_reader (Inr (Some example_sheet)) ok_engine example_filler example_fs
     = (Inr ok_final, example_final_fs) \<and>
   (\<forall>n d p. clone_error (ok_engine n d p) = None \<and> open_error (ok_engine n d p) = None) \<and>
   run example_reader (Inr (Some example_sheet)) example_engine example_filler example_final_fs
     = (Inr rerun_final, example_final_fs) \<and>
   success_count rerun_final = 0 \<and> row_count rerun_final = row_count ok_final"
proof -
  have i: "FormFiller_init example_fs ''input/template.pdf'' ''input/data.xlsx''
             ''output/filled'' False = Inr example_filler"
    by code_simp
  have r: "run example_reader (Inr (Some example_sheet)) ok_engine example_filler example_fs
     = (Inr ok_final, example_final_fs)"
    by code_simp
  have c: "\<forall>n d p. clone_error (ok_engine n d p) = None \<and> open_error (ok_engine n d p) = None"
    by (simp add: ok_engine_def ok_run_def)
  have r2: "run example_reader (Inr (Some example_sheet)) example_engine example_filler
              example_final_fs = (Inr rerun_final, example_final_fs)"
    by code_simp
  have n: "success_count rerun_final = 0 \<and> row_count rerun_final = row_count ok_final"
    by (simp add: rerun_final_def ok_final_def)
  from rerun_without_overwrite [OF i r c, of example_engine] i r c r2 n
  show ?thesis by (intro conjI) simp_all
qed

end
